theory Spec2Isabelle
  imports Main "HOL-Library.AList" "HOL-Library.Char_ord" "HOL-Library.List_Lexorder"
    "HOL-Library.Word"
begin

section \<open>GIFTI interfaces of smriprep (\<^verbatim>\<open>smriprep/interfaces/gifti.py\<close>)\<close>

subsection \<open>Errors\<close>

text \<open>
  Every exception the modelled code can raise is a value. \<open>TraitError\<close> and
  \<open>ValueError\<close> carry the name of the offending input, the file errors the path.
  \<open>NotModelled\<close> is no exception of the code: it marks the one thing the model leaves
  out, a conversion between a floating-point and an integer array on writing, which no
  run reaches (lemma \<open>run_interface_modelled\<close>).
\<close>

datatype error =
    TraitError string
  | ValueError string
  | FileNotFoundError string
  | IsADirectoryError string
  | ImageFileError string
  | KeyError
  | IndexError
  | TypeError
  | UnboundLocalError string
  | NotModelled

subsection \<open>Array elements\<close>

text \<open>
  Integer elements are machine words: \<open>8 word\<close> read unsigned (\<open>uint\<close>) for
  \<^verbatim>\<open>uint8\<close>, \<open>32 word\<close> and \<open>64 word\<close> read signed (\<open>sint\<close>) for \<^verbatim>\<open>int32\<close>
  and \<^verbatim>\<open>int64\<close>; arithmetic on them wraps. A \<^verbatim>\<open>float32\<close> element is its IEEE 754
  bit pattern: sign, biased exponent and fraction.
\<close>

datatype float32 = Float32 (sign: bool) (exponent: "8 word") (fraction: "23 word")

text \<open>Negation flips the sign bit, the absolute value clears it.\<close>

definition float_neg :: "float32 \<Rightarrow> float32" where
  "float_neg x = Float32 (\<not> sign x) (exponent x) (fraction x)"

definition float_abs :: "float32 \<Rightarrow> float32" where
  "float_abs x = Float32 False (exponent x) (fraction x)"

definition is_nan :: "float32 \<Rightarrow> bool" where
  "is_nan x = (exponent x = 255 \<and> fraction x \<noteq> 0)"

text \<open>\<^verbatim>\<open>x > 0\<close>: false for a NaN, for a set sign bit and for zero.\<close>

definition float_greater_0 :: "float32 \<Rightarrow> bool" where
  "float_greater_0 x =
     (\<not> is_nan x \<and> \<not> sign x \<and> (exponent x \<noteq> 0 \<or> fraction x \<noteq> 0))"


text \<open>The absolute value of a signed integer element: the minimum is its own negation.\<close>

definition int_abs :: "'a::len word \<Rightarrow> 'a word" where
  "int_abs x = (if sint x < 0 then - x else x)"

subsection \<open>Arrays\<close>

text \<open>
  A numeric array is a list of elements of one type (the values, flattened). Of the
  types that are no GIFTI datatype, \<^verbatim>\<open>int64\<close> stands for all. An array in memory
  is numeric or boolean: an elementwise comparison returns a boolean array.
\<close>

datatype num_array =
    UInt8 "8 word list"
  | Int32 "32 word list"
  | Int64 "64 word list"
  | Float "float32 list"

datatype ndarray = Num num_array | Bool "bool list"

text \<open>\<^verbatim>\<open>a.dtype\<close>, by name.\<close>

fun dtype :: "num_array \<Rightarrow> string" where
  "dtype (UInt8 xs) = ''uint8''"
| "dtype (Int32 xs) = ''int32''"
| "dtype (Int64 xs) = ''int64''"
| "dtype (Float xs) = ''float32''"

text \<open>
  \<^verbatim>\<open>abs(a)\<close>: elementwise, in the type of the elements; an unsigned or boolean array is
  its own absolute value.
\<close>

fun np_abs :: "ndarray \<Rightarrow> ndarray" where
  "np_abs (Num (UInt8 xs)) = Num (UInt8 xs)"
| "np_abs (Num (Int32 xs)) = Num (Int32 (map int_abs xs))"
| "np_abs (Num (Int64 xs)) = Num (Int64 (map int_abs xs))"
| "np_abs (Num (Float xs)) = Num (Float (map float_abs xs))"
| "np_abs (Bool bs) = Bool bs"

text \<open>
  \<^verbatim>\<open>-a\<close>: elementwise, in the type of the elements; the unary minus of a boolean array
  raises \<open>TypeError\<close>.
\<close>

fun np_negative :: "ndarray \<Rightarrow> error + ndarray" where
  "np_negative (Num (UInt8 xs)) = Inr (Num (UInt8 (map uminus xs)))"
| "np_negative (Num (Int32 xs)) = Inr (Num (Int32 (map uminus xs)))"
| "np_negative (Num (Int64 xs)) = Inr (Num (Int64 (map uminus xs)))"
| "np_negative (Num (Float xs)) = Inr (Num (Float (map float_neg xs)))"
| "np_negative (Bool bs) = Inl TypeError"

text \<open>\<^verbatim>\<open>a > 0\<close>: an elementwise comparison, the result a boolean array.\<close>

fun np_greater_0 :: "ndarray \<Rightarrow> ndarray" where
  "np_greater_0 (Num (UInt8 xs)) = Bool (map (\<lambda>x. 0 < uint x) xs)"
| "np_greater_0 (Num (Int32 xs)) = Bool (map (\<lambda>x. 0 < sint x) xs)"
| "np_greater_0 (Num (Int64 xs)) = Bool (map (\<lambda>x. 0 < sint x) xs)"
| "np_greater_0 (Num (Float xs)) = Bool (map float_greater_0 xs)"
| "np_greater_0 (Bool bs) = Bool bs"

text \<open>
  \<^verbatim>\<open>np.asanyarray(a, dtype)\<close> for the three GIFTI datatypes, as the writer casts an
  array to its declared datatype. Integers are cut to the width of the target,
  \<open>True\<close> is 1 and \<open>False\<close> is 0. A conversion between floating-point and integer
  elements is left out (\<open>None\<close>).
\<close>

definition float_of_bool :: "bool \<Rightarrow> float32" where
  "float_of_bool b = (if b then Float32 False 127 0 else Float32 False 0 0)"

fun astype_uint8 :: "ndarray \<Rightarrow> num_array option" where
  "astype_uint8 (Num (UInt8 xs)) = Some (UInt8 xs)"
| "astype_uint8 (Num (Int32 xs)) = Some (UInt8 (map ucast xs))"
| "astype_uint8 (Num (Int64 xs)) = Some (UInt8 (map ucast xs))"
| "astype_uint8 (Num (Float xs)) = None"
| "astype_uint8 (Bool bs) = Some (UInt8 (map of_bool bs))"

fun astype_int32 :: "ndarray \<Rightarrow> num_array option" where
  "astype_int32 (Num (UInt8 xs)) = Some (Int32 (map ucast xs))"
| "astype_int32 (Num (Int32 xs)) = Some (Int32 xs)"
| "astype_int32 (Num (Int64 xs)) = Some (Int32 (map ucast xs))"
| "astype_int32 (Num (Float xs)) = None"
| "astype_int32 (Bool bs) = Some (Int32 (map of_bool bs))"

fun astype_float32 :: "ndarray \<Rightarrow> num_array option" where
  "astype_float32 (Num (Float xs)) = Some (Float xs)"
| "astype_float32 (Bool bs) = Some (Float (map float_of_bool bs))"
| "astype_float32 (Num a) = None"

definition astype :: "string \<Rightarrow> ndarray \<Rightarrow> num_array option" where
  "astype t a =
     (if t = ''uint8'' then astype_uint8 a
      else if t = ''int32'' then astype_int32 a
      else if t = ''float32'' then astype_float32 a
      else None)"

subsection \<open>Strings and paths\<close>

text \<open>\<^verbatim>\<open>str.lower\<close> on ASCII.\<close>

definition lower_char :: "char \<Rightarrow> char" where
  "lower_char c =
     (case map_of (zip ''ABCDEFGHIJKLMNOPQRSTUVWXYZ'' ''abcdefghijklmnopqrstuvwxyz'') c of
        None \<Rightarrow> c
      | Some l \<Rightarrow> l)"

definition lower :: "string \<Rightarrow> string" where
  "lower s = map lower_char s"

text \<open>\<^verbatim>\<open>os.path.join\<close> (POSIX) of two components.\<close>

definition os_path_join :: "string \<Rightarrow> string \<Rightarrow> string" where
  "os_path_join a b =
     (if b \<noteq> [] \<and> hd b = CHR ''/'' then b
      else if a = [] \<or> last a = CHR ''/'' then a @ b
      else a @ ''/'' @ b)"

text \<open>\<^verbatim>\<open>os.path.basename\<close>, \<^verbatim>\<open>os.path.dirname\<close> and \<^verbatim>\<open>os.path.splitext\<close> (POSIX).\<close>

definition os_path_basename :: "string \<Rightarrow> string" where
  "os_path_basename p = rev (takeWhile (\<lambda>c. c \<noteq> CHR ''/'') (rev p))"

definition os_path_dirname :: "string \<Rightarrow> string" where
  "os_path_dirname p =
     (let head = take (length p - length (os_path_basename p)) p
      in if list_ex (\<lambda>c. c \<noteq> CHR ''/'') head
         then rev (dropWhile (\<lambda>c. c = CHR ''/'') (rev head))
         else head)"

definition os_path_splitext :: "string \<Rightarrow> string \<times> string" where
  "os_path_splitext p =
     (let name = os_path_basename p;
          n = Suc (length (takeWhile (\<lambda>c. c \<noteq> CHR ''.'') (rev name)))
      in if CHR ''.'' \<in> set name \<and> list_ex (\<lambda>c. c \<noteq> CHR ''.'') (take (length name - n) name)
         then (take (length p - n) p, drop (length p - n) p)
         else (p, []))"

subsection \<open>GIFTI files\<close>

text \<open>
  A \<^verbatim>\<open>DataArray\<close> element of a GIFTI file: its data, its attributes, its metadata.
  The data carry their type, which is the \<^verbatim>\<open>DataType\<close> attribute. Intent, encoding,
  endianness and index order are the library's integer codes (endianness: 1 big, 2
  little); the coordinate system is a parameter \<open>'c\<close>. A file is the file-level
  metadata and the list of its data arrays.
\<close>

record 'c DataArray =
  Data :: num_array
  Intent :: int
  Encoding :: int
  Endian :: int
  CoordinateSystem :: 'c
  ArrayIndexingOrder :: int
  MetaData :: "string \<rightharpoonup> string"
  ExternalFileName :: string
  ExternalFileOffset :: int

definition DataType :: "'c DataArray \<Rightarrow> string" where
  "DataType d = dtype (Data d)"

record 'c GIFTI =
  FileMetaData :: "string \<rightharpoonup> string"
  DataArrays :: "'c DataArray list"

text \<open>
  What a path names on disk: a GIFTI file, a file that does not parse as one (an empty
  file among them), or a directory.
\<close>

datatype 'c disk_file = GiftiFile "'c GIFTI" | OtherFile | Directory

type_synonym 'c filesystem = "string \<rightharpoonup> 'c disk_file"

definition is_file :: "'c filesystem \<Rightarrow> string \<Rightarrow> bool" where
  "is_file fs p = (fs p \<noteq> None \<and> fs p \<noteq> Some Directory)"

subsection \<open>GIFTI images in memory\<close>

text \<open>
  The attributes of the library's \<^verbatim>\<open>GiftiDataArray\<close> and \<^verbatim>\<open>GiftiImage\<close> objects. The
  datatype of an array is an attribute of its own, named by its alias
  (\<^verbatim>\<open>'uint8'\<close>, \<^verbatim>\<open>'int32'\<close>, \<^verbatim>\<open>'float32'\<close>), beside the data.
\<close>

record 'c GiftiDataArray =
  data :: ndarray
  intent :: int
  data_type :: string
  encoding :: int
  endian :: int
  coordsys :: 'c
  ind_ord :: int
  da_meta :: "string \<rightharpoonup> string"
  ext_fname :: string
  ext_offset :: int

record 'c GiftiImage =
  meta :: "string \<rightharpoonup> string"
  darrays :: "'c GiftiDataArray list"

text \<open>
  The constructor \<^verbatim>\<open>GiftiDataArray(data, intent=, datatype=, encoding=, endian=,
  coordsys=, ordering=, meta=)\<close>: the external file name and offset, which the call
  does not pass, have their defaults.
\<close>

definition GiftiDataArray_init ::
  "ndarray \<Rightarrow> int \<Rightarrow> string \<Rightarrow> int \<Rightarrow> int \<Rightarrow> 'c \<Rightarrow> int \<Rightarrow> (string \<rightharpoonup> string)
     \<Rightarrow> 'c GiftiDataArray" where
  "GiftiDataArray_init data' intent' datatype' encoding' endian' coordsys' ordering' meta' =
     \<lparr>data = data', intent = intent', data_type = datatype', encoding = encoding',
      endian = endian', coordsys = coordsys', ind_ord = ordering', da_meta = meta',
      ext_fname = [], ext_offset = 0\<rparr>"

text \<open>
  \<^verbatim>\<open>nb.GiftiImage.from_filename\<close>: the data of an array are read in the type the file
  declares.
\<close>

definition parse_darray :: "'c DataArray \<Rightarrow> 'c GiftiDataArray" where
  "parse_darray d =
     \<lparr>data = Num (Data d), intent = Intent d, data_type = dtype (Data d),
      encoding = Encoding d, endian = Endian d, coordsys = CoordinateSystem d,
      ind_ord = ArrayIndexingOrder d, da_meta = MetaData d,
      ext_fname = ExternalFileName d, ext_offset = ExternalFileOffset d\<rparr>"

definition from_filename :: "'c filesystem \<Rightarrow> string \<Rightarrow> error + 'c GiftiImage" where
  "from_filename fs path =
     (case fs path of
        None \<Rightarrow> Inl (FileNotFoundError path)
      | Some Directory \<Rightarrow> Inl (IsADirectoryError path)
      | Some OtherFile \<Rightarrow> Inl (ImageFileError path)
      | Some (GiftiFile g) \<Rightarrow>
          Inr \<lparr>meta = FileMetaData g, darrays = map parse_darray (DataArrays g)\<rparr>)"

text \<open>
  \<^verbatim>\<open>img.to_filename\<close>, the library's writer. The file is opened for writing, which
  fails on a directory and in a directory that does not exist, and which leaves an
  empty file. Then the image is serialised: a datatype that is none of the three GIFTI
  datatypes is refused (the empty file stays); each array is written with its data
  cast to its datatype and with the byte order of the machine as its endianness,
  whatever the array's own.
\<close>

definition gifti_dtypes :: "string list" where
  "gifti_dtypes = [''uint8'', ''int32'', ''float32'']"

definition serialize_darray :: "int \<Rightarrow> 'c GiftiDataArray \<Rightarrow> 'c DataArray option" where
  "serialize_darray byteorder d =
     (case astype (data_type d) (data d) of
        None \<Rightarrow> None
      | Some a \<Rightarrow>
          Some \<lparr>Data = a, Intent = intent d, Encoding = encoding d, Endian = byteorder,
                CoordinateSystem = coordsys d, ArrayIndexingOrder = ind_ord d,
                MetaData = da_meta d, ExternalFileName = ext_fname d,
                ExternalFileOffset = ext_offset d\<rparr>)"

definition to_filename ::
  "int \<Rightarrow> 'c GiftiImage \<Rightarrow> string \<Rightarrow> 'c filesystem \<Rightarrow> error option \<times> 'c filesystem" where
  "to_filename byteorder img path fs =
     (if fs path = Some Directory then (Some (IsADirectoryError path), fs)
      else if os_path_dirname path \<noteq> [] \<and> fs (os_path_dirname path) \<noteq> Some Directory
        then (Some (FileNotFoundError path), fs)
      else if list_ex (\<lambda>d. data_type d \<notin> set gifti_dtypes) (darrays img)
        then (Some (ValueError ''datatype''), fs(path \<mapsto> OtherFile))
      else case those (map (serialize_darray byteorder) (darrays img)) of
             None \<Rightarrow> (Some NotModelled, fs(path \<mapsto> OtherFile))
           | Some ds \<Rightarrow>
               (None, fs(path \<mapsto> GiftiFile \<lparr>FileMetaData = meta img, DataArrays = ds\<rparr>)))"

subsection \<open>Input specifications\<close>

text \<open>
  An input specification is a list of trait declarations. A declaration carries the
  keyword arguments the source passes: \<^verbatim>\<open>mandatory\<close>, \<^verbatim>\<open>exists\<close>, \<^verbatim>\<open>argstr\<close>,
  \<^verbatim>\<open>position\<close>, \<^verbatim>\<open>name_template\<close>, \<^verbatim>\<open>name_source\<close> and \<^verbatim>\<open>keep_extension\<close>;
  one the source leaves out has the default of \<open>Trait\<close>.
\<close>

datatype trait_type = Str | Enum "string list" | File

record trait =
  trait_name :: string
  trait_type :: trait_type
  mandatory :: bool
  exists :: bool
  argstr :: "string option"
  position :: "int option"
  name_template :: "string option"
  name_source :: "string option"
  keep_extension :: bool

definition Trait :: "string \<Rightarrow> trait_type \<Rightarrow> trait" where
  "Trait n ty =
     \<lparr>trait_name = n, trait_type = ty, mandatory = False, exists = False, argstr = None,
      position = None, name_template = None, name_source = None, keep_extension = False\<rparr>"

text \<open>
  The inputs of an interface: the value each trait holds, \<open>None\<close> for one left
  undefined.
\<close>

type_synonym inputs = "string \<rightharpoonup> string"

definition MetricMathInputSpec :: "trait list" where
  "MetricMathInputSpec =
     [Trait ''subject_id'' Str,
      (Trait ''hemisphere'' (Enum [''L'', ''R'']))\<lparr>mandatory := True\<rparr>,
      Trait ''metric'' Str,
      (Trait ''metric_file'' File)\<lparr>exists := True, mandatory := True\<rparr>,
      (Trait ''operation'' (Enum [''invert'', ''abs'', ''bin'']))\<lparr>mandatory := True\<rparr>]"

definition MetricFillHolesInputSpec :: "trait list" where
  "MetricFillHolesInputSpec =
     [(Trait ''surface_file'' File)
        \<lparr>mandatory := True, exists := True, argstr := Some ''%s'', position := Some 1\<rparr>,
      (Trait ''metric_file'' File)
        \<lparr>mandatory := True, exists := True, argstr := Some ''%s'', position := Some 2\<rparr>,
      (Trait ''out_file'' File)
        \<lparr>name_template := Some ''%s_filled.shape.gii'', name_source := Some ''metric_file'',
         keep_extension := False, argstr := Some ''%s'', position := Some 3\<rparr>,
      (Trait ''corrected_areas'' File)
        \<lparr>exists := True, argstr := Some ''-corrected-areas %s''\<rparr>]"

definition MetricRemoveIslandsInputSpec :: "trait list" where
  "MetricRemoveIslandsInputSpec =
     [(Trait ''surface_file'' File)
        \<lparr>mandatory := True, exists := True, argstr := Some ''%s'', position := Some 1\<rparr>,
      (Trait ''metric_file'' File)
        \<lparr>mandatory := True, exists := True, argstr := Some ''%s'', position := Some 2\<rparr>,
      (Trait ''out_file'' File)
        \<lparr>name_template := Some ''%s_noislands.shape.gii'', name_source := Some ''metric_file'',
         keep_extension := False, argstr := Some ''%s'', position := Some 3\<rparr>,
      (Trait ''corrected_areas'' File)
        \<lparr>exists := True, argstr := Some ''-corrected-areas %s''\<rparr>]"

text \<open>A command-line interface: its input specification and \<^verbatim>\<open>_cmd\<close>.\<close>

record command_line =
  input_spec :: "trait list"
  cmd :: string

definition MetricFillHoles :: command_line where
  "MetricFillHoles =
     \<lparr>input_spec = MetricFillHolesInputSpec, cmd = ''wb_command -metric-fill-holes''\<rparr>"

definition MetricRemoveIslands :: command_line where
  "MetricRemoveIslands =
     \<lparr>input_spec = MetricRemoveIslandsInputSpec, cmd = ''wb_command -metric-remove-islands''\<rparr>"

subsection \<open>Validation of inputs\<close>

text \<open>
  Modelled from the spec: the validation of inputs is done by the pipeline framework
  the interfaces derive from (\<^verbatim>\<open>TraitedSpec\<close>, \<^verbatim>\<open>SimpleInterface\<close>, \<^verbatim>\<open>WBCommand\<close>), which
  is not part of this repository's sources. The spec asks for "required/optional fields
  and validated-at-construction enforcement of file must exist, value in enumerated set",
  and that a missing mandatory input fails before anything runs. A value outside an
  enumeration, or a file that must exist and does not, is a \<open>TraitError\<close>; a mandatory
  input left undefined is a \<open>ValueError\<close>.
\<close>

definition validate_trait :: "(string \<Rightarrow> bool) \<Rightarrow> trait \<Rightarrow> string option \<Rightarrow> error option" where
  "validate_trait on_disk t v =
     (case v of
        None \<Rightarrow> None
      | Some s \<Rightarrow>
          (case trait_type t of
             Enum vs \<Rightarrow> if s \<in> set vs then None else Some (TraitError (trait_name t))
           | File \<Rightarrow> if exists t \<and> \<not> on_disk s then Some (TraitError (trait_name t)) else None
           | Str \<Rightarrow> None))"

fun validate_traits :: "(string \<Rightarrow> bool) \<Rightarrow> trait list \<Rightarrow> inputs \<Rightarrow> error option" where
  "validate_traits on_disk [] inputs = None"
| "validate_traits on_disk (t # ts) inputs =
     (case validate_trait on_disk t (inputs (trait_name t)) of
        Some e \<Rightarrow> Some e
      | None \<Rightarrow> validate_traits on_disk ts inputs)"

fun check_mandatory_inputs :: "trait list \<Rightarrow> inputs \<Rightarrow> error option" where
  "check_mandatory_inputs [] inputs = None"
| "check_mandatory_inputs (t # ts) inputs =
     (if mandatory t \<and> inputs (trait_name t) = None then Some (ValueError (trait_name t))
      else check_mandatory_inputs ts inputs)"

definition check_inputs :: "(string \<Rightarrow> bool) \<Rightarrow> trait list \<Rightarrow> inputs \<Rightarrow> error option" where
  "check_inputs on_disk spec inputs =
     (case validate_traits on_disk spec inputs of
        Some e \<Rightarrow> Some e
      | None \<Rightarrow> check_mandatory_inputs spec inputs)"

subsection \<open>\<^verbatim>\<open>MetricMath\<close>\<close>

text \<open>
  What a run is given beside its inputs: the working directory (\<^verbatim>\<open>runtime.cwd\<close>)
  and the byte order of the machine (\<^verbatim>\<open>sys.byteorder\<close>, as an endianness code).
\<close>

record runtime =
  cwd :: string
  byteorder :: int

text \<open>An undefined input formats as \<^verbatim>\<open><undefined>\<close> in an f-string.\<close>

definition fmt :: "string option \<Rightarrow> string" where
  "fmt v = (case v of None \<Rightarrow> ''<undefined>'' | Some s \<Rightarrow> s)"

text \<open>The dictionary literal \<^verbatim>\<open>{'L': 'CortexLeft', 'R': 'CortexRight'}\<close>, indexed.\<close>

definition structure_of :: "string option \<Rightarrow> error + string" where
  "structure_of hemi =
     (if hemi = Some ''L'' then Inr ''CortexLeft''
      else if hemi = Some ''R'' then Inr ''CortexRight''
      else Inl KeyError)"

text \<open>
  The \<^verbatim>\<open>if\<close>/\<^verbatim>\<open>elif\<close> chain over the operation, in the source's order. It has no
  \<^verbatim>\<open>else\<close>: with any other operation \<^verbatim>\<open>data\<close> is never bound, and its first use
  (the call of the \<^verbatim>\<open>GiftiDataArray\<close> constructor) raises.
\<close>

definition apply_operation ::
  "string option \<Rightarrow> 'c GiftiDataArray \<Rightarrow> error + (ndarray \<times> string)" where
  "apply_operation op darray =
     (if op = Some ''abs'' then Inr (np_abs (data darray), data_type darray)
      else if op = Some ''invert'' then
        (case np_negative (data darray) of
           Inl e \<Rightarrow> Inl e
         | Inr d \<Rightarrow> Inr (d, data_type darray))
      else if op = Some ''bin'' then Inr (np_greater_0 (data darray), ''uint8'')
      else Inl (UnboundLocalError ''data''))"

text \<open>
  \<^verbatim>\<open>MetricMath._run_interface\<close>. The state is the file system; the result is the
  output's path (\<^verbatim>\<open>self._results['metric_file']\<close>) or the exception raised, and the
  file system as the call leaves it. An undefined \<open>metric_file\<close> is no path, and
  reading it raises.
\<close>

definition run_interface ::
  "runtime \<Rightarrow> inputs \<Rightarrow> 'c filesystem \<Rightarrow> (error + string) \<times> 'c filesystem" where
  "run_interface runtime inputs fs =
     (let subject = (case inputs ''subject_id'' of None \<Rightarrow> ''sub-XYZ'' | Some s \<Rightarrow> s);
          hemi = inputs ''hemisphere'';
          metric = inputs ''metric''
      in case inputs ''metric_file'' of
           None \<Rightarrow> (Inl TypeError, fs)
         | Some path \<Rightarrow>
      (case from_filename fs path of
         Inl e \<Rightarrow> (Inl e, fs)
       | Inr img0 \<Rightarrow>
      (case structure_of hemi of
         Inl e \<Rightarrow> (Inl e, fs)
       | Inr structure \<Rightarrow>
      (let img = img0\<lparr>meta := (meta img0)(''AnatomicalStructurePrimary'' \<mapsto> structure)\<rparr>
       in case darrays img of
            [] \<Rightarrow> (Inl IndexError, fs)
          | darray # rest \<Rightarrow>
      (let meta' = (da_meta darray)(''Name'' \<mapsto> subject @ ''_'' @ fmt hemi @ ''_'' @ fmt metric)
       in case apply_operation (inputs ''operation'') darray of
            Inl e \<Rightarrow> (Inl e, fs)
          | Inr (data', datatype') \<Rightarrow>
      (let darray' = GiftiDataArray_init data' (intent darray) datatype' (encoding darray)
                       (endian darray) (coordsys darray) (ind_ord darray) meta';
           img' = img\<lparr>darrays := (darrays img)[0 := darray']\<rparr>;
           hemi_lower = lower (fmt hemi);
           out_filename =
             os_path_join (cwd runtime) (hemi_lower @ ''h.'' @ fmt metric @ ''.native.shape.gii'')
       in case to_filename (byteorder runtime) img' out_filename fs of
            (Some e, fs') \<Rightarrow> (Inl e, fs')
          | (None, fs') \<Rightarrow> (Inr out_filename, fs')))))))"

text \<open>
  Modelled from the spec: a whole run of the interface, which the base class
  \<^verbatim>\<open>SimpleInterface\<close> drives. The inputs are checked (against the files on disk), then
  \<^verbatim>\<open>_run_interface\<close> runs.
\<close>

definition MetricMath_run ::
  "runtime \<Rightarrow> inputs \<Rightarrow> 'c filesystem \<Rightarrow> (error + string) \<times> 'c filesystem" where
  "MetricMath_run runtime inputs fs =
     (case check_inputs (is_file fs) MetricMathInputSpec inputs of
        Some e \<Rightarrow> (Inl e, fs)
      | None \<Rightarrow> run_interface runtime inputs fs)"

subsection \<open>Command lines\<close>

text \<open>
  Modelled from the spec: the two wrappers declare an input specification and a command
  only; what turns them into a command line and a run is the base class they derive
  from (\<^verbatim>\<open>WBCommand\<close>, a \<^verbatim>\<open>CommandLine\<close>), which is not part of this repository's
  sources. The spec has each wrapper "validate required input files exist, construct a
  command line from a fixed template and input parameters, derive an output filename
  from an input filename pattern, and invoke the command", the output filename "derived
  by substituting a fixed suffix into the input filename's base name". The definitions
  below follow the base class for the keyword arguments the source uses: \<^verbatim>\<open>argstr\<close> is
  a \<^verbatim>\<open>%\<close>-format of the value, arguments with a \<^verbatim>\<open>position\<close> come first in the order
  of their positions (negative positions last), arguments without one in between, and
  an output without a value is named from \<^verbatim>\<open>name_template\<close> and the base name of its
  \<^verbatim>\<open>name_source\<close>.
\<close>

text \<open>\<^verbatim>\<open>template % value\<close> for a template with one \<^verbatim>\<open>%s\<close>, and \<^verbatim>\<open>'%s' in s\<close>.\<close>

fun percent_s :: "string \<Rightarrow> string \<Rightarrow> string" where
  "percent_s (a # b # t) v =
     (if a = CHR ''%'' \<and> b = CHR ''s'' then v @ t else a # percent_s (b # t) v)"
| "percent_s t v = t"

fun contains_percent_s :: "string \<Rightarrow> bool" where
  "contains_percent_s (a # b # t) =
     (a = CHR ''%'' \<and> b = CHR ''s'' \<or> contains_percent_s (b # t))"
| "contains_percent_s t = False"

text \<open>
  Modelled from the spec: \<^verbatim>\<open>split_filename\<close> of the framework, which gives the "input
  filename's base name": directory, base name and extension of a path; the extensions
  \<^verbatim>\<open>.nii.gz\<close>, \<^verbatim>\<open>.tar.gz\<close> and \<^verbatim>\<open>.niml.dset\<close> are taken whole, in any case of letters.
\<close>

fun special_extension :: "string list \<Rightarrow> string \<Rightarrow> (string \<times> string) option" where
  "special_extension [] fname = None"
| "special_extension (special_ext # rest) fname =
     (let ext_len = length special_ext
      in if length fname > ext_len
            \<and> lower (drop (length fname - ext_len) fname) = lower special_ext
         then Some (take (length fname - ext_len) fname, drop (length fname - ext_len) fname)
         else special_extension rest fname)"

definition split_filename :: "string \<Rightarrow> string \<times> string \<times> string" where
  "split_filename path =
     (let pth = os_path_dirname path;
          fname = os_path_basename path
      in case special_extension [''.nii.gz'', ''.tar.gz'', ''.niml.dset''] fname of
           Some (base, ext) \<Rightarrow> (pth, base, ext)
         | None \<Rightarrow> (case os_path_splitext fname of (base, ext) \<Rightarrow> (pth, base, ext)))"

text \<open>
  Modelled from the spec: \<^verbatim>\<open>_filename_from_source\<close> of the base class ("derive an
  output filename from an input filename pattern"), the value of a trait that has a
  \<^verbatim>\<open>name_source\<close>. A value
  that is set and holds no \<^verbatim>\<open>%s\<close> stands. Otherwise the name is the template (the
  value, if set, else \<^verbatim>\<open>name_template\<close>, else \<^verbatim>\<open>%s_generated\<close>) filled with the base
  name of the source's value; with \<^verbatim>\<open>keep_extension\<close> the source's extension is added
  to a name that has none. An undefined source leaves the value as it is (no source
  trait of this file has a source of its own).
\<close>

definition filename_from_source :: "inputs \<Rightarrow> trait \<Rightarrow> string option" where
  "filename_from_source inputs t =
     (let retval = inputs (trait_name t)
      in if (case retval of None \<Rightarrow> True | Some r \<Rightarrow> contains_percent_s r) then
           (case name_source t of
              None \<Rightarrow> retval
            | Some ns \<Rightarrow>
                (let template =
                       (case retval of
                          Some r \<Rightarrow> r
                        | None \<Rightarrow>
                            (case name_template t of
                               None \<Rightarrow> ''%s_generated''
                             | Some nt \<Rightarrow> if nt = [] then ''%s_generated'' else nt))
                 in case inputs ns of
                      None \<Rightarrow> retval
                    | Some source \<Rightarrow>
                        (case split_filename source of
                           (pth, base, source_ext) \<Rightarrow>
                             (let generated = percent_s template base
                              in case split_filename generated of
                                   (pth', base', ext) \<Rightarrow>
                                     if keep_extension t \<and> ext = [] \<and> source_ext \<noteq> []
                                     then Some (generated @ source_ext)
                                     else Some generated))))
         else retval)"

text \<open>
  Modelled from the spec: \<^verbatim>\<open>_parse_inputs\<close> of the base class ("construct a command
  line from a fixed template and input parameters"). The traits with an \<^verbatim>\<open>argstr\<close> are
  visited in the order of their
  names; an undefined value is skipped; the formatted argument goes to the dictionary
  of its position, or to the list of arguments without one.
\<close>

type_synonym parsed = "(int \<times> string) list \<times> string list \<times> (int \<times> string) list"

definition has_argstr :: "trait \<Rightarrow> bool" where
  "has_argstr t = (argstr t \<noteq> None)"

definition parse_step :: "inputs \<Rightarrow> parsed \<Rightarrow> trait \<Rightarrow> parsed" where
  "parse_step inputs acc t =
     (case acc of (initial_args, all_args, final_args) \<Rightarrow>
        (case argstr t of
           None \<Rightarrow> acc
         | Some a \<Rightarrow>
             (case (if name_source t \<noteq> None then filename_from_source inputs t
                    else inputs (trait_name t)) of
                None \<Rightarrow> acc
              | Some v \<Rightarrow>
                  (let arg = percent_s a v
                   in case position t of
                        None \<Rightarrow> (initial_args, all_args @ [arg], final_args)
                      | Some pos \<Rightarrow>
                          if pos \<ge> 0 then (AList.update pos arg initial_args, all_args, final_args)
                          else (initial_args, all_args, AList.update pos arg final_args)))))"

definition parse_inputs :: "trait list \<Rightarrow> inputs \<Rightarrow> string list" where
  "parse_inputs spec inputs =
     (case foldl (parse_step inputs) ([], [], [])
             (sort_key trait_name (filter has_argstr spec)) of
        (initial_args, all_args, final_args) \<Rightarrow>
          map snd (sort_key fst initial_args) @ all_args @ map snd (sort_key fst final_args))"

text \<open>\<^verbatim>\<open>' '.join\<close>\<close>

fun join_spaces :: "string list \<Rightarrow> string" where
  "join_spaces [] = []"
| "join_spaces [x] = x"
| "join_spaces (x # y # ys) = x @ '' '' @ join_spaces (y # ys)"

text \<open>
  Modelled from the spec: \<^verbatim>\<open>cmdline\<close> of the base class. The mandatory inputs are
  checked, then the command and its arguments are joined.
\<close>

definition cmdline :: "command_line \<Rightarrow> inputs \<Rightarrow> error + string" where
  "cmdline iface inputs =
     (case check_mandatory_inputs (input_spec iface) inputs of
        Some e \<Rightarrow> Inl e
      | None \<Rightarrow> Inr (join_spaces (cmd iface # parse_inputs (input_spec iface) inputs)))"

text \<open>
  Modelled from the spec: a run of a command-line interface ("validate required input
  files exist, ... and invoke the command"). The inputs are checked against the files on
  disk;
  if they pass, a subprocess is spawned with the command line, which is the result.
  An error is a run that ended before any subprocess.
\<close>

definition spawn :: "command_line \<Rightarrow> inputs \<Rightarrow> (string \<Rightarrow> bool) \<Rightarrow> error + string" where
  "spawn iface inputs on_disk =
     (case validate_traits on_disk (input_spec iface) inputs of
        Some e \<Rightarrow> Inl e
      | None \<Rightarrow> cmdline iface inputs)"

text \<open>An input that is left undefined, or names a file that is not on disk.\<close>

definition missing :: "(string \<Rightarrow> bool) \<Rightarrow> inputs \<Rightarrow> string \<Rightarrow> bool" where
  "missing on_disk inputs name = (case inputs name of None \<Rightarrow> True | Some p \<Rightarrow> \<not> on_disk p)"

text \<open>
  The template as the spec writes it, for comparison:
  \<^verbatim>\<open>command <surface> <metric-in> [-corrected-areas <area-metric>] <metric-out>\<close>.
\<close>

definition spec_template :: "string \<Rightarrow> string \<Rightarrow> string \<Rightarrow> string option \<Rightarrow> string \<Rightarrow> string" where
  "spec_template command surface metric_in area_metric metric_out =
     join_spaces ([command, surface, metric_in]
       @ (case area_metric of None \<Rightarrow> [] | Some a \<Rightarrow> [''-corrected-areas'', a])
       @ [metric_out])"

text \<open>The output name of a wrapper with suffix \<open>sfx\<close> for the input metric \<open>m\<close>.\<close>

definition derived_name :: "string \<Rightarrow> string \<Rightarrow> string" where
  "derived_name m sfx = (case split_filename m of (pth, base, ext) \<Rightarrow> base @ sfx)"

text \<open>The inputs of the docstrings' examples, and the same with corrected areas.\<close>

definition roi_inputs :: inputs where
  "roi_inputs =
     [''surface_file'' \<mapsto> ''lh.midthickness.surf.gii'', ''metric_file'' \<mapsto> ''lh.roi.shape.gii'']"

definition roi_inputs_areas :: inputs where
  "roi_inputs_areas = roi_inputs(''corrected_areas'' \<mapsto> ''lh.va.shape.gii'')"

definition roi_disk :: "string \<Rightarrow> bool" where
  "roi_disk p = (p \<in> set [''lh.midthickness.surf.gii'', ''lh.roi.shape.gii'', ''lh.va.shape.gii''])"


subsection \<open>Reading a run's output\<close>

text \<open>The GIFTI file a successful run has left at the path it returns.\<close>

definition output_image :: "(error + string) \<times> 'c filesystem \<Rightarrow> 'c GIFTI option" where
  "output_image r =
     (case fst r of
        Inl e \<Rightarrow> None
      | Inr out \<Rightarrow> (case snd r out of Some (GiftiFile g) \<Rightarrow> Some g | _ \<Rightarrow> None))"

text \<open>Its first data array.\<close>

definition output_darray :: "(error + string) \<times> 'c filesystem \<Rightarrow> 'c DataArray option" where
  "output_darray r =
     (case output_image r of
        None \<Rightarrow> None
      | Some g \<Rightarrow> (case DataArrays g of [] \<Rightarrow> None | d # ds \<Rightarrow> Some d))"

text \<open>
  The path of the output, the label of the first array, and the first array as it is
  written: with data \<open>a\<close> in place of the data of the array \<open>d\<close> read.
\<close>

definition out_path :: "string \<Rightarrow> inputs \<Rightarrow> string" where
  "out_path dir inputs =
     os_path_join dir
       (lower (fmt (inputs ''hemisphere'')) @ ''h.'' @ fmt (inputs ''metric'') @ ''.native.shape.gii'')"

definition name_label :: "inputs \<Rightarrow> string" where
  "name_label inputs =
     (case inputs ''subject_id'' of None \<Rightarrow> ''sub-XYZ'' | Some s \<Rightarrow> s)
       @ ''_'' @ fmt (inputs ''hemisphere'') @ ''_'' @ fmt (inputs ''metric'')"

definition written_first :: "int \<Rightarrow> inputs \<Rightarrow> 'c DataArray \<Rightarrow> num_array \<Rightarrow> 'c DataArray" where
  "written_first b inputs d a =
     \<lparr>Data = a, Intent = Intent d, Encoding = Encoding d, Endian = b,
      CoordinateSystem = CoordinateSystem d, ArrayIndexingOrder = ArrayIndexingOrder d,
      MetaData = (MetaData d)(''Name'' \<mapsto> name_label inputs),
      ExternalFileName = [], ExternalFileOffset = 0\<rparr>"

text \<open>The array that replaces the first one in memory, for the array \<open>d\<close> read.\<close>

definition written_memory ::
  "inputs \<Rightarrow> 'c DataArray \<Rightarrow> ndarray \<Rightarrow> string \<Rightarrow> 'c GiftiDataArray" where
  "written_memory inputs d data' datatype' =
     GiftiDataArray_init data' (intent (parse_darray d)) datatype' (encoding (parse_darray d))
       (endian (parse_darray d)) (coordsys (parse_darray d)) (ind_ord (parse_darray d))
       ((da_meta (parse_darray d))(''Name'' \<mapsto> name_label inputs))"

subsection \<open>Example files\<close>

text \<open>
  A metric file of two data arrays, both big-endian, the first with given data, in a
  file system with a working directory; a little-endian machine; inputs that name the
  file and leave the subject undefined.
\<close>

definition example_darray :: "num_array \<Rightarrow> unit DataArray" where
  "example_darray a =
     \<lparr>Data = a, Intent = 2005, Encoding = 3, Endian = 1, CoordinateSystem = (),
      ArrayIndexingOrder = 1, MetaData = [''Name'' \<mapsto> ''old name''],
      ExternalFileName = ''data.bin'', ExternalFileOffset = 16\<rparr>"

definition other_darray :: "unit DataArray" where
  "other_darray =
     \<lparr>Data = Float [Float32 False 127 0, Float32 True 128 0], Intent = 0, Encoding = 1,
      Endian = 1, CoordinateSystem = (), ArrayIndexingOrder = 2, MetaData = Map.empty,
      ExternalFileName = [], ExternalFileOffset = 0\<rparr>"

definition example_image :: "num_array \<Rightarrow> unit GIFTI" where
  "example_image a =
     \<lparr>FileMetaData =
        [''AnatomicalStructurePrimary'' \<mapsto> ''Unknown'', ''Description'' \<mapsto> ''thickness''],
      DataArrays = [example_darray a, other_darray]\<rparr>"

definition example_fs :: "num_array \<Rightarrow> unit filesystem" where
  "example_fs a =
     [''/data/in.shape.gii'' \<mapsto> GiftiFile (example_image a), ''/work'' \<mapsto> Directory]"

definition example_runtime :: runtime where
  "example_runtime = \<lparr>cwd = ''/work'', byteorder = 2\<rparr>"

definition example_inputs :: "string \<Rightarrow> string \<Rightarrow> inputs" where
  "example_inputs hemi op =
     [''hemisphere'' \<mapsto> hemi, ''metric'' \<mapsto> ''thickness'',
      ''metric_file'' \<mapsto> ''/data/in.shape.gii'', ''operation'' \<mapsto> op]"

subsection \<open>Facts about elements and arrays\<close>









lemma astype_dtype: "dtype a \<in> set gifti_dtypes \<Longrightarrow> astype (dtype a) (Num a) = Some a"
  by (cases a) (simp_all add: astype_def gifti_dtypes_def)

lemma astype_result: "astype t x = Some a \<Longrightarrow> dtype a = t"
  by (cases x rule: astype_uint8.cases) (auto simp: astype_def split: if_splits)

lemma apply_operation_cases:
  assumes "apply_operation op dr = Inr (data', datatype')"
  shows "op = Some ''abs'' \<and> data' = np_abs (data dr) \<and> datatype' = data_type dr
       \<or> op = Some ''invert'' \<and> np_negative (data dr) = Inr data' \<and> datatype' = data_type dr
       \<or> op = Some ''bin'' \<and> data' = np_greater_0 (data dr) \<and> datatype' = ''uint8''"
  using assms by (auto simp: apply_operation_def split: if_splits sum.splits)

lemma np_abs_castable:
  "dtype a \<in> set gifti_dtypes \<Longrightarrow> \<exists>a'. astype (dtype a) (np_abs (Num a)) = Some a'"
  by (cases a) (simp_all add: astype_def gifti_dtypes_def)

lemma np_negative_castable:
  "dtype a \<in> set gifti_dtypes \<Longrightarrow> np_negative (Num a) = Inr data' \<Longrightarrow>
     \<exists>a'. astype (dtype a) data' = Some a'"
  by (cases a) (auto simp: astype_def gifti_dtypes_def)

lemma np_greater_0_castable: "\<exists>a'. astype ''uint8'' (np_greater_0 (Num a)) = Some a'"
  by (cases a) (simp_all add: astype_def)

lemma apply_operation_castable:
  assumes "apply_operation op (parse_darray d) = Inr (data', datatype')"
    and "datatype' \<in> set gifti_dtypes"
  shows "\<exists>a. astype datatype' data' = Some a"
proof -
  have dr: "data (parse_darray d) = Num (Data d)" "data_type (parse_darray d) = dtype (Data d)"
    by (simp_all add: parse_darray_def)
  from apply_operation_cases [OF assms(1)] show ?thesis
  proof (elim disjE conjE)
    assume "data' = np_abs (data (parse_darray d))" "datatype' = data_type (parse_darray d)"
    with assms(2) dr show ?thesis
      by (simp add: np_abs_castable)
  next
    assume "np_negative (data (parse_darray d)) = Inr data'"
      "datatype' = data_type (parse_darray d)"
    with assms(2) dr show ?thesis
      by (simp add: np_negative_castable)
  next
    assume "data' = np_greater_0 (data (parse_darray d))" "datatype' = ''uint8''"
    with dr show ?thesis
      by (simp add: np_greater_0_castable)
  qed
qed

lemma serialize_parse_darray:
  "dtype (Data d) \<in> set gifti_dtypes \<Longrightarrow>
     serialize_darray b (parse_darray d) = Some (d\<lparr>Endian := b\<rparr>)"
  by (simp add: serialize_darray_def parse_darray_def astype_dtype)

lemma those_serialize_parse:
  "\<forall>d \<in> set ds. dtype (Data d) \<in> set gifti_dtypes \<Longrightarrow>
     those (map (serialize_darray b) (map parse_darray ds)) = Some (map (\<lambda>d. d\<lparr>Endian := b\<rparr>) ds)"
  by (induction ds) (simp_all add: serialize_parse_darray)

subsection \<open>What a run of \<^verbatim>\<open>_run_interface\<close> does\<close>

lemma to_filename_None_cases:
  assumes "to_filename b img path fs = (None, fs')"
  obtains ds where
    "those (map (serialize_darray b) (darrays img)) = Some ds"
    "\<forall>d \<in> set (darrays img). data_type d \<in> set gifti_dtypes"
    "fs path \<noteq> Some Directory"
    "os_path_dirname path = [] \<or> fs (os_path_dirname path) = Some Directory"
    "fs' = fs(path \<mapsto> GiftiFile \<lparr>FileMetaData = meta img, DataArrays = ds\<rparr>)"
  using assms
  by (auto simp: to_filename_def list_ex_iff split: if_splits option.splits)

lemma run_interface_written:
  assumes "run_interface rt inputs fs = (Inr out, fs')"
  obtains path g struct d rest data' datatype' where
    "inputs ''metric_file'' = Some path"
    "fs path = Some (GiftiFile g)"
    "structure_of (inputs ''hemisphere'') = Inr struct"
    "DataArrays g = d # rest"
    "apply_operation (inputs ''operation'') (parse_darray d) = Inr (data', datatype')"
    "out = out_path (cwd rt) inputs"
    "to_filename (byteorder rt)
       \<lparr>meta = (FileMetaData g)(''AnatomicalStructurePrimary'' \<mapsto> struct),
        darrays = written_memory inputs d data' datatype' # map parse_darray rest\<rparr>
       out fs = (None, fs')"
  using assms
  by (auto simp: run_interface_def from_filename_def out_path_def name_label_def
      written_memory_def Let_def
      split: option.splits sum.splits list.splits disk_file.splits prod.splits)

lemma written_memory_facts:
  "data_type (written_memory inputs d data' datatype') = datatype'"
  "serialize_darray b (written_memory inputs d data' datatype')
     = map_option (written_first b inputs d) (astype datatype' data')"
  by (simp_all add: written_memory_def serialize_darray_def GiftiDataArray_init_def
      parse_darray_def written_first_def split: option.splits)

lemma parse_darray_data_type: "data_type (parse_darray r) = dtype (Data r)"
  by (simp add: parse_darray_def)

lemma run_interface_success_cases:
  assumes "run_interface rt inputs fs = (Inr out, fs')"
  obtains path g struct d rest data' datatype' a where
    "inputs ''metric_file'' = Some path"
    "fs path = Some (GiftiFile g)"
    "structure_of (inputs ''hemisphere'') = Inr struct"
    "DataArrays g = d # rest"
    "apply_operation (inputs ''operation'') (parse_darray d) = Inr (data', datatype')"
    "astype datatype' data' = Some a"
    "datatype' \<in> set gifti_dtypes"
    "\<forall>r \<in> set rest. dtype (Data r) \<in> set gifti_dtypes"
    "out = out_path (cwd rt) inputs"
    "fs out \<noteq> Some Directory"
    "os_path_dirname out = [] \<or> fs (os_path_dirname out) = Some Directory"
    "fs' = fs(out \<mapsto> GiftiFile
       \<lparr>FileMetaData = (FileMetaData g)(''AnatomicalStructurePrimary'' \<mapsto> struct),
        DataArrays = written_first (byteorder rt) inputs d a
          # map (\<lambda>r. r\<lparr>Endian := byteorder rt\<rparr>) rest\<rparr>)"
  using assms
proof (rule run_interface_written)
  fix path g struct d rest data' datatype'
  assume h: "inputs ''metric_file'' = Some path" "fs path = Some (GiftiFile g)"
    "structure_of (inputs ''hemisphere'') = Inr struct" "DataArrays g = d # rest"
    "apply_operation (inputs ''operation'') (parse_darray d) = Inr (data', datatype')"
    and out: "out = out_path (cwd rt) inputs"
  let ?b = "byteorder rt"
  let ?img = "\<lparr>meta = (FileMetaData g)(''AnatomicalStructurePrimary'' \<mapsto> struct),
        darrays = written_memory inputs d data' datatype' # map parse_darray rest\<rparr>"
  assume "to_filename ?b ?img out fs = (None, fs')"
  then show thesis
  proof (rule to_filename_None_cases)
    fix ds
    assume those: "those (map (serialize_darray ?b) (darrays ?img)) = Some ds"
      and valid: "\<forall>d \<in> set (darrays ?img). data_type d \<in> set gifti_dtypes"
      and place: "fs out \<noteq> Some Directory"
        "os_path_dirname out = [] \<or> fs (os_path_dirname out) = Some Directory"
      and fs': "fs' = fs(out \<mapsto> GiftiFile \<lparr>FileMetaData = meta ?img, DataArrays = ds\<rparr>)"
    from valid have dt: "datatype' \<in> set gifti_dtypes"
      and rest: "\<forall>r \<in> set rest. dtype (Data r) \<in> set gifti_dtypes"
      by (simp_all add: written_memory_facts parse_darray_data_type)
    from apply_operation_castable [OF h(5) dt] obtain a where a: "astype datatype' data' = Some a"
      by blast
    from those a those_serialize_parse [OF rest, of ?b]
    have "ds = written_first ?b inputs d a # map (\<lambda>r. r\<lparr>Endian := ?b\<rparr>) rest"
      by (simp add: written_memory_facts)
    with fs' have "fs' = fs(out \<mapsto> GiftiFile
       \<lparr>FileMetaData = (FileMetaData g)(''AnatomicalStructurePrimary'' \<mapsto> struct),
        DataArrays = written_first ?b inputs d a # map (\<lambda>r. r\<lparr>Endian := ?b\<rparr>) rest\<rparr>)"
      by simp
    with h a dt rest out place show thesis
      by (rule that)
  qed
qed

lemma run_interface_succeeds:
  assumes "inputs ''metric_file'' = Some path"
    and "fs path = Some (GiftiFile g)"
    and "structure_of (inputs ''hemisphere'') = Inr struct"
    and "DataArrays g = d # rest"
    and "apply_operation (inputs ''operation'') (parse_darray d) = Inr (data', datatype')"
    and "astype datatype' data' = Some a"
    and "datatype' \<in> set gifti_dtypes"
    and "\<forall>r \<in> set rest. dtype (Data r) \<in> set gifti_dtypes"
    and "fs (out_path (cwd rt) inputs) \<noteq> Some Directory"
    and "os_path_dirname (out_path (cwd rt) inputs) = []
         \<or> fs (os_path_dirname (out_path (cwd rt) inputs)) = Some Directory"
  shows "run_interface rt inputs fs =
    (Inr (out_path (cwd rt) inputs),
     fs(out_path (cwd rt) inputs \<mapsto> GiftiFile
       \<lparr>FileMetaData = (FileMetaData g)(''AnatomicalStructurePrimary'' \<mapsto> struct),
        DataArrays = written_first (byteorder rt) inputs d a
          # map (\<lambda>r. r\<lparr>Endian := byteorder rt\<rparr>) rest\<rparr>))"
proof -
  let ?b = "byteorder rt"
  let ?out = "out_path (cwd rt) inputs"
  let ?img = "\<lparr>meta = (FileMetaData g)(''AnatomicalStructurePrimary'' \<mapsto> struct),
        darrays = written_memory inputs d data' datatype' # map parse_darray rest\<rparr>"
  have valid: "\<not> list_ex (\<lambda>d. data_type d \<notin> set gifti_dtypes) (darrays ?img)"
    using assms(7,8) by (simp add: list_ex_iff written_memory_facts parse_darray_data_type)
  have those: "those (map (serialize_darray ?b) (darrays ?img))
      = Some (written_first ?b inputs d a # map (\<lambda>r. r\<lparr>Endian := ?b\<rparr>) rest)"
    using assms(6) those_serialize_parse [OF assms(8), of ?b]
    by (simp add: written_memory_facts)
  have "to_filename ?b ?img ?out fs =
      (None, fs(?out \<mapsto> GiftiFile \<lparr>FileMetaData = meta ?img,
         DataArrays = written_first ?b inputs d a # map (\<lambda>r. r\<lparr>Endian := ?b\<rparr>) rest\<rparr>))"
    unfolding to_filename_def using assms(9,10) valid those by auto
  with assms(1-5) show ?thesis
    by (simp add: run_interface_def from_filename_def out_path_def name_label_def
        written_memory_def Let_def)
qed

lemma apply_operation_error:
  "apply_operation op dr = Inl e \<Longrightarrow> e = TypeError \<or> e = UnboundLocalError ''data''"
proof -
  have "np_negative x = Inl e' \<Longrightarrow> e' = TypeError" for x e'
    by (cases x rule: np_negative.cases) simp_all
  then show "apply_operation op dr = Inl e \<Longrightarrow> e = TypeError \<or> e = UnboundLocalError ''data''"
    by (auto simp: apply_operation_def split: if_splits sum.splits)
qed

lemma structure_of_error: "structure_of hemi = Inl e \<Longrightarrow> e = KeyError"
  by (simp add: structure_of_def split: if_splits)

lemma run_interface_writer:
  assumes "inputs ''metric_file'' = Some path"
    and "fs path = Some (GiftiFile g)"
    and "structure_of (inputs ''hemisphere'') = Inr struct"
    and "DataArrays g = d # rest"
    and "apply_operation (inputs ''operation'') (parse_darray d) = Inr (data', datatype')"
  shows "run_interface rt inputs fs =
    (case to_filename (byteorder rt)
            \<lparr>meta = (FileMetaData g)(''AnatomicalStructurePrimary'' \<mapsto> struct),
             darrays = written_memory inputs d data' datatype' # map parse_darray rest\<rparr>
            (out_path (cwd rt) inputs) fs of
       (Some e, fs') \<Rightarrow> (Inl e, fs')
     | (None, fs') \<Rightarrow> (Inr (out_path (cwd rt) inputs), fs'))"
proof -
  obtain eo fs' where "to_filename (byteorder rt)
            \<lparr>meta = (FileMetaData g)(''AnatomicalStructurePrimary'' \<mapsto> struct),
             darrays = written_memory inputs d data' datatype' # map parse_darray rest\<rparr>
            (out_path (cwd rt) inputs) fs = (eo, fs')"
    by (cases "to_filename (byteorder rt)
            \<lparr>meta = (FileMetaData g)(''AnatomicalStructurePrimary'' \<mapsto> struct),
             darrays = written_memory inputs d data' datatype' # map parse_darray rest\<rparr>
            (out_path (cwd rt) inputs) fs")
  with assms show ?thesis
    by (cases eo)
      (simp_all add: run_interface_def from_filename_def out_path_def name_label_def
        written_memory_def Let_def)
qed

lemma run_interface_error_cases:
  fixes fs :: "'c filesystem"
  assumes "run_interface rt inputs fs = (Inl e, fs')"
  obtains (early) "fs' = fs" "e \<noteq> NotModelled"
  | (writer) g :: "'c GIFTI" and struct d rest data' datatype' where
      "apply_operation (inputs ''operation'') (parse_darray d) = Inr (data', datatype')"
      "to_filename (byteorder rt)
         \<lparr>meta = (FileMetaData g)(''AnatomicalStructurePrimary'' \<mapsto> struct),
          darrays = written_memory inputs d data' datatype' # map parse_darray rest\<rparr>
         (out_path (cwd rt) inputs) fs = (Some e, fs')"
proof (cases "inputs ''metric_file''")
  case None
  with assms have "fs' = fs" "e \<noteq> NotModelled"
    by (auto simp: run_interface_def Let_def)
  then show thesis
    by (rule early)
next
  case (Some path)
  show thesis
  proof (cases "from_filename fs path")
    case (Inl e')
    with Some assms have "fs' = fs" "e \<noteq> NotModelled"
      by (auto simp: run_interface_def from_filename_def Let_def
          split: option.splits disk_file.splits)
    then show thesis
      by (rule early)
  next
    case (Inr img0)
    then obtain g where g: "fs path = Some (GiftiFile g)"
      and img0: "img0 = \<lparr>meta = FileMetaData g, darrays = map parse_darray (DataArrays g)\<rparr>"
      by (auto simp: from_filename_def split: option.splits disk_file.splits)
    show thesis
    proof (cases "structure_of (inputs ''hemisphere'')")
      case (Inl e')
      with Some Inr assms have "fs' = fs" "e \<noteq> NotModelled"
        by (auto simp: run_interface_def Let_def dest: structure_of_error)
      then show thesis
        by (rule early)
    next
      case struct: (Inr struct)
      show thesis
      proof (cases "DataArrays g")
        case Nil
        with Some Inr img0 struct assms have "fs' = fs" "e \<noteq> NotModelled"
          by (auto simp: run_interface_def Let_def)
        then show thesis
          by (rule early)
      next
        case (Cons d rest)
        show thesis
        proof (cases "apply_operation (inputs ''operation'') (parse_darray d)")
          case (Inl e')
          with Some Inr img0 struct Cons assms have "fs' = fs" "e \<noteq> NotModelled"
            by (auto simp: run_interface_def Let_def dest: apply_operation_error)
          then show thesis
            by (rule early)
        next
          case op: (Inr r)
          obtain data' datatype' where r: "r = (data', datatype')"
            by (cases r)
          from op r
          have op': "apply_operation (inputs ''operation'') (parse_darray d) = Inr (data', datatype')"
            by simp
          from assms run_interface_writer [where inputs = inputs and fs = fs and rt = rt,
              OF Some g struct Cons op']
          have "to_filename (byteorder rt)
               \<lparr>meta = (FileMetaData g)(''AnatomicalStructurePrimary'' \<mapsto> struct),
                darrays = written_memory inputs d data' datatype' # map parse_darray rest\<rparr>
               (out_path (cwd rt) inputs) fs = (Some e, fs')"
            by (auto split: prod.splits option.splits)
          with op' show thesis
            by (rule writer)
        qed
      qed
    qed
  qed
qed

lemma run_interface_modelled: "fst (run_interface rt inputs fs) \<noteq> Inl NotModelled"
proof
  assume "fst (run_interface rt inputs fs) = Inl NotModelled"
  then have "run_interface rt inputs fs = (Inl NotModelled, snd (run_interface rt inputs fs))"
    by (cases "run_interface rt inputs fs") simp
  then show False
  proof (cases rule: run_interface_error_cases)
    case early
    then show False
      by simp
  next
    case (writer g struct d rest data' datatype')
    let ?b = "byteorder rt"
    from writer(2)
    have none: "those (serialize_darray ?b (written_memory inputs d data' datatype')
          # map (serialize_darray ?b) (map parse_darray rest)) = None"
      and dt: "datatype' \<in> set gifti_dtypes"
      and rest: "\<forall>r \<in> set rest. dtype (Data r) \<in> set gifti_dtypes"
      by (auto simp: to_filename_def list_ex_iff written_memory_facts parse_darray_data_type
          split: if_splits option.splits)
    from apply_operation_castable [OF writer(1) dt]
    obtain a where "astype datatype' data' = Some a"
      by blast
    with none those_serialize_parse [OF rest, of ?b] show False
      by (simp add: written_memory_facts)
  qed
qed

lemma output_image_cases:
  assumes "output_image (run_interface rt inputs fs) = Some g'"
  obtains path g struct d rest data' datatype' a where
    "inputs ''metric_file'' = Some path"
    "fs path = Some (GiftiFile g)"
    "structure_of (inputs ''hemisphere'') = Inr struct"
    "DataArrays g = d # rest"
    "apply_operation (inputs ''operation'') (parse_darray d) = Inr (data', datatype')"
    "astype datatype' data' = Some a"
    "datatype' \<in> set gifti_dtypes"
    "g' = \<lparr>FileMetaData = (FileMetaData g)(''AnatomicalStructurePrimary'' \<mapsto> struct),
          DataArrays = written_first (byteorder rt) inputs d a
            # map (\<lambda>r. r\<lparr>Endian := byteorder rt\<rparr>) rest\<rparr>"
proof -
  obtain r fs' where run: "run_interface rt inputs fs = (r, fs')"
    by (cases "run_interface rt inputs fs")
  with assms obtain out where "r = Inr out"
    by (cases r) (simp_all add: output_image_def)
  with run have ok: "run_interface rt inputs fs = (Inr out, fs')"
    by simp
  from ok show thesis
  proof (rule run_interface_success_cases)
    fix path g struct d rest data' datatype' a
    assume h: "inputs ''metric_file'' = Some path" "fs path = Some (GiftiFile g)"
      "structure_of (inputs ''hemisphere'') = Inr struct" "DataArrays g = d # rest"
      "apply_operation (inputs ''operation'') (parse_darray d) = Inr (data', datatype')"
      "astype datatype' data' = Some a" "datatype' \<in> set gifti_dtypes"
      and fs': "fs' = fs(out \<mapsto> GiftiFile
         \<lparr>FileMetaData = (FileMetaData g)(''AnatomicalStructurePrimary'' \<mapsto> struct),
          DataArrays = written_first (byteorder rt) inputs d a
            # map (\<lambda>r. r\<lparr>Endian := byteorder rt\<rparr>) rest\<rparr>)"
    from assms ok fs'
    have "g' = \<lparr>FileMetaData = (FileMetaData g)(''AnatomicalStructurePrimary'' \<mapsto> struct),
          DataArrays = written_first (byteorder rt) inputs d a
            # map (\<lambda>r. r\<lparr>Endian := byteorder rt\<rparr>) rest\<rparr>"
      by (simp add: output_image_def)
    with h show thesis
      by (rule that)
  qed
qed

lemma output_darray_cases:
  assumes "output_darray (run_interface rt inputs fs) = Some d'"
  obtains path g struct d rest data' datatype' a where
    "inputs ''metric_file'' = Some path"
    "fs path = Some (GiftiFile g)"
    "structure_of (inputs ''hemisphere'') = Inr struct"
    "DataArrays g = d # rest"
    "apply_operation (inputs ''operation'') (parse_darray d) = Inr (data', datatype')"
    "astype datatype' data' = Some a"
    "datatype' \<in> set gifti_dtypes"
    "d' = written_first (byteorder rt) inputs d a"
proof -
  from assms obtain g' where g': "output_image (run_interface rt inputs fs) = Some g'"
    by (auto simp: output_darray_def split: option.splits)
  from g' show thesis
  proof (rule output_image_cases)
    fix path g struct d rest data' datatype' a
    assume h: "inputs ''metric_file'' = Some path" "fs path = Some (GiftiFile g)"
      "structure_of (inputs ''hemisphere'') = Inr struct" "DataArrays g = d # rest"
      "apply_operation (inputs ''operation'') (parse_darray d) = Inr (data', datatype')"
      "astype datatype' data' = Some a" "datatype' \<in> set gifti_dtypes"
      and "g' = \<lparr>FileMetaData = (FileMetaData g)(''AnatomicalStructurePrimary'' \<mapsto> struct),
          DataArrays = written_first (byteorder rt) inputs d a
            # map (\<lambda>r. r\<lparr>Endian := byteorder rt\<rparr>) rest\<rparr>"
    with assms g' have "d' = written_first (byteorder rt) inputs d a"
      by (simp add: output_darray_def)
    with h show thesis
      by (rule that)
  qed
qed

lemma structure_of_LR:
  "hemi = Some ''L'' \<or> hemi = Some ''R'' \<Longrightarrow>
     structure_of hemi = Inr (if hemi = Some ''L'' then ''CortexLeft'' else ''CortexRight'')"
  by (auto simp: structure_of_def)

lemma structure_of_Inr:
  "structure_of hemi = Inr s \<Longrightarrow>
     hemi = Some ''L'' \<and> s = ''CortexLeft'' \<or> hemi = Some ''R'' \<and> s = ''CortexRight''"
  by (auto simp: structure_of_def split: if_splits)

lemma apply_operation_unrecognized:
  "op \<noteq> Some ''invert'' \<Longrightarrow> op \<noteq> Some ''abs'' \<Longrightarrow> op \<noteq> Some ''bin'' \<Longrightarrow>
     apply_operation op d = Inl (UnboundLocalError ''data'')"
  by (simp add: apply_operation_def)




subsection \<open>The example runs\<close>

lemma example_facts:
  "example_inputs hemi op ''metric_file'' = Some ''/data/in.shape.gii''"
  "example_inputs hemi op ''hemisphere'' = Some hemi"
  "example_inputs hemi op ''operation'' = Some op"
  "example_inputs hemi op ''metric'' = Some ''thickness''"
  "example_inputs hemi op ''subject_id'' = None"
  "example_fs a ''/data/in.shape.gii'' = Some (GiftiFile (example_image a))"
  "DataArrays (example_image a) = example_darray a # [other_darray]"
  "Data (example_darray a) = a"
  "cwd example_runtime = ''/work''"
  "byteorder example_runtime = 2"
  by (simp_all add: example_inputs_def example_fs_def example_image_def example_darray_def
      example_runtime_def)

lemma example_out_path:
  "out_path ''/work'' (example_inputs ''L'' op) = ''/work/lh.thickness.native.shape.gii''"
  "out_path ''/work'' (example_inputs ''R'' op) = ''/work/rh.thickness.native.shape.gii''"
  by (simp_all add: out_path_def os_path_join_def lower_def lower_char_def example_facts fmt_def)

lemma example_place:
  "example_fs a ''/work/lh.thickness.native.shape.gii'' \<noteq> Some Directory"
  "example_fs a ''/work/rh.thickness.native.shape.gii'' \<noteq> Some Directory"
  "example_fs a (os_path_dirname ''/work/lh.thickness.native.shape.gii'') = Some Directory"
  "example_fs a (os_path_dirname ''/work/rh.thickness.native.shape.gii'') = Some Directory"
  by (simp_all add: example_fs_def os_path_dirname_def os_path_basename_def)

lemma example_run:
  assumes "hemi = ''L'' \<or> hemi = ''R''"
    and "apply_operation (Some op) (parse_darray (example_darray a)) = Inr (data', datatype')"
    and "astype datatype' data' = Some a'"
    and "datatype' \<in> set gifti_dtypes"
  shows "run_interface example_runtime (example_inputs hemi op) (example_fs a) =
    (Inr (out_path ''/work'' (example_inputs hemi op)),
     (example_fs a)(out_path ''/work'' (example_inputs hemi op) \<mapsto> GiftiFile
       \<lparr>FileMetaData = (FileMetaData (example_image a))(''AnatomicalStructurePrimary'' \<mapsto>
          (if hemi = ''L'' then ''CortexLeft'' else ''CortexRight'')),
        DataArrays = [written_first 2 (example_inputs hemi op) (example_darray a) a',
          other_darray\<lparr>Endian := 2\<rparr>]\<rparr>))"
proof -
  have s: "structure_of (example_inputs hemi op ''hemisphere'')
      = Inr (if hemi = ''L'' then ''CortexLeft'' else ''CortexRight'')"
    using assms(1) by (auto simp: example_facts structure_of_def)
  have op: "apply_operation (example_inputs hemi op ''operation'') (parse_darray (example_darray a))
      = Inr (data', datatype')"
    using assms(2) by (simp add: example_facts)
  have rest: "\<forall>r \<in> set [other_darray]. dtype (Data r) \<in> set gifti_dtypes"
    by (simp add: other_darray_def gifti_dtypes_def)
  have place: "example_fs a (out_path (cwd example_runtime) (example_inputs hemi op))
      \<noteq> Some Directory"
    "os_path_dirname (out_path (cwd example_runtime) (example_inputs hemi op)) = []
     \<or> example_fs a (os_path_dirname (out_path (cwd example_runtime) (example_inputs hemi op)))
       = Some Directory"
    using assms(1) by (auto simp: example_facts example_out_path example_place)
  from run_interface_succeeds [where rt = example_runtime and inputs = "example_inputs hemi op"
      and fs = "example_fs a", OF example_facts(1) example_facts(6) s example_facts(7) op
      assms(3) assms(4) rest place]
  show ?thesis
    by (simp add: example_facts)
qed

lemma example_output:
  assumes "hemi = ''L'' \<or> hemi = ''R''"
    and "apply_operation (Some op) (parse_darray (example_darray a)) = Inr (data', datatype')"
    and "astype datatype' data' = Some a'"
    and "datatype' \<in> set gifti_dtypes"
  shows "output_image (run_interface example_runtime (example_inputs hemi op) (example_fs a)) =
      Some \<lparr>FileMetaData = (FileMetaData (example_image a))(''AnatomicalStructurePrimary'' \<mapsto>
          (if hemi = ''L'' then ''CortexLeft'' else ''CortexRight'')),
        DataArrays = [written_first 2 (example_inputs hemi op) (example_darray a) a',
          other_darray\<lparr>Endian := 2\<rparr>]\<rparr>"
    and "output_darray (run_interface example_runtime (example_inputs hemi op) (example_fs a)) =
      Some (written_first 2 (example_inputs hemi op) (example_darray a) a')"
  by (simp_all add: example_run [OF assms] output_image_def output_darray_def)

text \<open>The operations on the example arrays.\<close>

lemma example_operations:
  "apply_operation (Some ''invert'') (parse_darray (example_darray (Int32 [-2, 0, 3])))
     = Inr (Num (Int32 [2, 0, -3]), ''int32'')"
  "apply_operation (Some ''abs'') (parse_darray (example_darray (Int32 [-2, 0, 3])))
     = Inr (Num (Int32 [2, 0, 3]), ''int32'')"
  "apply_operation (Some ''bin'') (parse_darray (example_darray (Int32 [-2, 0, 3])))
     = Inr (Bool [False, False, True], ''uint8'')"
  "apply_operation (Some ''invert'') (parse_darray (example_darray (UInt8 [1, 0, 3])))
     = Inr (Num (UInt8 [255, 0, 253]), ''uint8'')"
  "apply_operation (Some ''abs'') (parse_darray (example_darray (Int32 [- 2147483648])))
     = Inr (Num (Int32 [- 2147483648]), ''int32'')"
  by (simp_all add: apply_operation_def parse_darray_def example_darray_def int_abs_def)

lemma example_casts:
  "astype ''int32'' (Num (Int32 xs)) = Some (Int32 xs)"
  "astype ''uint8'' (Num (UInt8 ys)) = Some (UInt8 ys)"
  "astype ''uint8'' (Bool [False, False, True]) = Some (UInt8 [0, 0, 1])"
  "''int32'' \<in> set gifti_dtypes"
  "''uint8'' \<in> set gifti_dtypes"
  by (simp_all add: astype_def gifti_dtypes_def)

subsection \<open>Facts about the command-line model\<close>

lemma os_path_splitext_append:
  "os_path_splitext p = (root, ext) \<Longrightarrow> root @ ext = p"
  by (auto simp: os_path_splitext_def Let_def split: if_splits)

lemma special_extension_append:
  "special_extension exts fname = Some (base, ext) \<Longrightarrow> base @ ext = fname"
  by (induction exts) (auto simp: Let_def split: if_splits)

lemma split_filename_name:
  assumes "split_filename path = (pth, base, ext)"
  shows "base @ ext = os_path_basename path"
proof (cases "special_extension [''.nii.gz'', ''.tar.gz'', ''.niml.dset''] (os_path_basename path)")
  case None
  with assms have "os_path_splitext (os_path_basename path) = (base, ext)"
    by (simp add: split_filename_def Let_def split: prod.splits)
  then show ?thesis
    by (rule os_path_splitext_append)
next
  case (Some be)
  with assms
  have "special_extension [''.nii.gz'', ''.tar.gz'', ''.niml.dset''] (os_path_basename path)
      = Some (base, ext)"
    by (cases be) (simp add: split_filename_def Let_def)
  then show ?thesis
    by (rule special_extension_append)
qed

lemma sorted_fill_holes:
  "sort_key trait_name (filter has_argstr MetricFillHolesInputSpec) =
     [(Trait ''corrected_areas'' File)\<lparr>exists := True, argstr := Some ''-corrected-areas %s''\<rparr>,
      (Trait ''metric_file'' File)
        \<lparr>mandatory := True, exists := True, argstr := Some ''%s'', position := Some 2\<rparr>,
      (Trait ''out_file'' File)
        \<lparr>name_template := Some ''%s_filled.shape.gii'', name_source := Some ''metric_file'',
         keep_extension := False, argstr := Some ''%s'', position := Some 3\<rparr>,
      (Trait ''surface_file'' File)
        \<lparr>mandatory := True, exists := True, argstr := Some ''%s'', position := Some 1\<rparr>]"
  by (simp add: MetricFillHolesInputSpec_def Trait_def has_argstr_def)

lemma sorted_remove_islands:
  "sort_key trait_name (filter has_argstr MetricRemoveIslandsInputSpec) =
     [(Trait ''corrected_areas'' File)\<lparr>exists := True, argstr := Some ''-corrected-areas %s''\<rparr>,
      (Trait ''metric_file'' File)
        \<lparr>mandatory := True, exists := True, argstr := Some ''%s'', position := Some 2\<rparr>,
      (Trait ''out_file'' File)
        \<lparr>name_template := Some ''%s_noislands.shape.gii'', name_source := Some ''metric_file'',
         keep_extension := False, argstr := Some ''%s'', position := Some 3\<rparr>,
      (Trait ''surface_file'' File)
        \<lparr>mandatory := True, exists := True, argstr := Some ''%s'', position := Some 1\<rparr>]"
  by (simp add: MetricRemoveIslandsInputSpec_def Trait_def has_argstr_def)

lemma parse_inputs_fill_holes:
  assumes "inputs ''surface_file'' = Some s" and "inputs ''metric_file'' = Some m"
    and "inputs ''out_file'' = None"
  shows "parse_inputs MetricFillHolesInputSpec inputs =
     s # m # derived_name m ''_filled.shape.gii'' #
       (case inputs ''corrected_areas'' of None \<Rightarrow> [] | Some a \<Rightarrow> [''-corrected-areas '' @ a])"
  using assms
  by (simp add: parse_inputs_def sorted_fill_holes parse_step_def Trait_def
      filename_from_source_def derived_name_def split: option.splits prod.splits)

lemma parse_inputs_remove_islands:
  assumes "inputs ''surface_file'' = Some s" and "inputs ''metric_file'' = Some m"
    and "inputs ''out_file'' = None"
  shows "parse_inputs MetricRemoveIslandsInputSpec inputs =
     s # m # derived_name m ''_noislands.shape.gii'' #
       (case inputs ''corrected_areas'' of None \<Rightarrow> [] | Some a \<Rightarrow> [''-corrected-areas '' @ a])"
  using assms
  by (simp add: parse_inputs_def sorted_remove_islands parse_step_def Trait_def
      filename_from_source_def derived_name_def split: option.splits prod.splits)

lemma cmdline_wrappers:
  assumes "inputs ''surface_file'' = Some s" and "inputs ''metric_file'' = Some m"
    and "inputs ''out_file'' = None"
  shows "cmdline MetricFillHoles inputs =
      Inr (join_spaces (''wb_command -metric-fill-holes'' # s # m #
        derived_name m ''_filled.shape.gii'' #
        (case inputs ''corrected_areas'' of None \<Rightarrow> [] | Some a \<Rightarrow> [''-corrected-areas '' @ a])))"
    and "cmdline MetricRemoveIslands inputs =
      Inr (join_spaces (''wb_command -metric-remove-islands'' # s # m #
        derived_name m ''_noislands.shape.gii'' #
        (case inputs ''corrected_areas'' of None \<Rightarrow> [] | Some a \<Rightarrow> [''-corrected-areas '' @ a])))"
  using assms parse_inputs_fill_holes [OF assms] parse_inputs_remove_islands [OF assms]
  by (simp_all add: cmdline_def MetricFillHoles_def MetricRemoveIslands_def
      MetricFillHolesInputSpec_def MetricRemoveIslandsInputSpec_def Trait_def)

lemma validate_wrappers:
  "validate_traits on_disk MetricFillHolesInputSpec inputs =
     (if (\<exists>p. inputs ''surface_file'' = Some p \<and> \<not> on_disk p) then Some (TraitError ''surface_file'')
      else if (\<exists>p. inputs ''metric_file'' = Some p \<and> \<not> on_disk p) then Some (TraitError ''metric_file'')
      else if (\<exists>p. inputs ''corrected_areas'' = Some p \<and> \<not> on_disk p)
        then Some (TraitError ''corrected_areas'')
      else None)"
  "validate_traits on_disk MetricRemoveIslandsInputSpec inputs =
     validate_traits on_disk MetricFillHolesInputSpec inputs"
  by (auto simp: MetricFillHolesInputSpec_def MetricRemoveIslandsInputSpec_def Trait_def
      validate_trait_def split: option.splits)

lemma mandatory_wrappers:
  "check_mandatory_inputs MetricFillHolesInputSpec inputs =
     (if inputs ''surface_file'' = None then Some (ValueError ''surface_file'')
      else if inputs ''metric_file'' = None then Some (ValueError ''metric_file'')
      else None)"
  "check_mandatory_inputs MetricRemoveIslandsInputSpec inputs =
     check_mandatory_inputs MetricFillHolesInputSpec inputs"
  by (simp_all add: MetricFillHolesInputSpec_def MetricRemoveIslandsInputSpec_def Trait_def)

lemma roi_facts:
  "roi_inputs ''surface_file'' = Some ''lh.midthickness.surf.gii''"
  "roi_inputs ''metric_file'' = Some ''lh.roi.shape.gii''"
  "roi_inputs ''out_file'' = None"
  "roi_inputs ''corrected_areas'' = None"
  "roi_inputs_areas ''surface_file'' = Some ''lh.midthickness.surf.gii''"
  "roi_inputs_areas ''metric_file'' = Some ''lh.roi.shape.gii''"
  "roi_inputs_areas ''out_file'' = None"
  "roi_inputs_areas ''corrected_areas'' = Some ''lh.va.shape.gii''"
  "roi_disk ''lh.midthickness.surf.gii''"
  "roi_disk ''lh.roi.shape.gii''"
  "roi_disk ''lh.va.shape.gii''"
  by (simp_all add: roi_inputs_def roi_inputs_areas_def roi_disk_def)

lemma derived_name_roi:
  "derived_name ''lh.roi.shape.gii'' sfx = ''lh.roi.shape'' @ sfx"
  by (simp add: derived_name_def split_filename_def os_path_splitext_def os_path_basename_def
      os_path_dirname_def lower_def lower_char_def)

section \<open>The claims\<close>




text \<open>
  C2. An operation that is none of \<open>invert\<close>, \<open>abs\<close> and \<open>bin\<close> (or is left
  undefined) makes the run fail: \<^verbatim>\<open>_run_interface\<close> raises and so does the whole run,
  nothing is written (the file system is as before, and there is no output image), and
  where the input file, the hemisphere and the first data array are in order the
  exception of \<^verbatim>\<open>_run_interface\<close> is the unbound \<^verbatim>\<open>data\<close>.
\<close>

theorem unrecognized_operation_fails:
  assumes "inputs ''operation'' \<noteq> Some ''invert''"
    and "inputs ''operation'' \<noteq> Some ''abs''"
    and "inputs ''operation'' \<noteq> Some ''bin''"
  shows "(\<exists>e. run_interface rt inputs fs = (Inl e, fs))
       \<and> (\<exists>e. MetricMath_run rt inputs fs = (Inl e, fs))
       \<and> output_image (run_interface rt inputs fs) = None
       \<and> (\<forall>path g d rest.
            inputs ''metric_file'' = Some path \<and> fs path = Some (GiftiFile g)
            \<and> DataArrays g = d # rest
            \<and> (inputs ''hemisphere'' = Some ''L'' \<or> inputs ''hemisphere'' = Some ''R'')
            \<longrightarrow> run_interface rt inputs fs = (Inl (UnboundLocalError ''data''), fs))"
proof -
  have op: "apply_operation (inputs ''operation'') dr = Inl (UnboundLocalError ''data'')"
    for dr :: "'a GiftiDataArray"
    using assms by (rule apply_operation_unrecognized)
  have run: "\<exists>e. run_interface rt inputs fs = (Inl e, fs)"
    by (simp add: run_interface_def Let_def op
        split: option.splits sum.splits list.splits)
  then have whole: "\<exists>e. MetricMath_run rt inputs fs = (Inl e, fs)"
    by (simp add: MetricMath_run_def split: option.splits)
  from run have none: "output_image (run_interface rt inputs fs) = None"
    by (auto simp: output_image_def)
  have "run_interface rt inputs fs = (Inl (UnboundLocalError ''data''), fs)"
    if "inputs ''metric_file'' = Some path" "fs path = Some (GiftiFile g)"
      "DataArrays g = d # rest"
      "inputs ''hemisphere'' = Some ''L'' \<or> inputs ''hemisphere'' = Some ''R''"
    for path g d rest
    using that structure_of_LR [OF that(4)]
    by (simp add: run_interface_def Let_def op from_filename_def)
  with run whole none show ?thesis
    by blast
qed

theorem unrecognized_operation_example:
  "run_interface example_runtime (example_inputs ''L'' ''square'') (example_fs (Int32 [-2, 0, 3]))
     = (Inl (UnboundLocalError ''data''), example_fs (Int32 [-2, 0, 3]))
   \<and> MetricMath_run example_runtime (example_inputs ''L'' ''square'') (example_fs (Int32 [-2, 0, 3]))
     = (Inl (TraitError ''operation''), example_fs (Int32 [-2, 0, 3]))
   \<and> output_image (run_interface example_runtime (example_inputs ''L'' ''square'')
        (example_fs (Int32 [-2, 0, 3]))) = None"
proof -
  let ?fs = "example_fs (Int32 [-2, 0, 3])"
  have op: "example_inputs ''L'' ''square'' ''operation'' \<noteq> Some ''invert''"
    "example_inputs ''L'' ''square'' ''operation'' \<noteq> Some ''abs''"
    "example_inputs ''L'' ''square'' ''operation'' \<noteq> Some ''bin''"
    by (simp_all add: example_facts)
  note fails = unrecognized_operation_fails [where inputs = "example_inputs ''L'' ''square''"
      and rt = example_runtime and fs = ?fs, OF op]
  from fails have "run_interface example_runtime (example_inputs ''L'' ''square'') ?fs
     = (Inl (UnboundLocalError ''data''), ?fs)"
    using example_facts(1,2,6,7) by blast
  moreover have "MetricMath_run example_runtime (example_inputs ''L'' ''square'') ?fs
     = (Inl (TraitError ''operation''), ?fs)"
    by (simp add: MetricMath_run_def check_inputs_def MetricMathInputSpec_def Trait_def
        validate_trait_def example_facts is_file_def)
  moreover from fails
  have "output_image (run_interface example_runtime (example_inputs ''L'' ''square'') ?fs) = None"
    by blast
  ultimately show ?thesis
    by blast
qed

text \<open>
  C5. Whenever a run writes an image, the hemisphere is \<open>L\<close> and the image's
  \<open>AnatomicalStructurePrimary\<close> is \<open>CortexLeft\<close>, or the hemisphere is \<open>R\<close> and
  the field is \<open>CortexRight\<close>: no other value of the field is produced.
\<close>

theorem anatomical_structure:
  assumes "output_image (run_interface rt inputs fs) = Some g'"
  shows "inputs ''hemisphere'' = Some ''L''
           \<and> FileMetaData g' ''AnatomicalStructurePrimary'' = Some ''CortexLeft''
       \<or> inputs ''hemisphere'' = Some ''R''
           \<and> FileMetaData g' ''AnatomicalStructurePrimary'' = Some ''CortexRight''"
  using assms
proof (rule output_image_cases)
  fix g :: "'a GIFTI" and struct d rest a
  assume "structure_of (inputs ''hemisphere'') = Inr struct"
    and "g' = \<lparr>FileMetaData = (FileMetaData g)(''AnatomicalStructurePrimary'' \<mapsto> struct),
          DataArrays = written_first (byteorder rt) inputs d a
            # map (\<lambda>r. r\<lparr>Endian := byteorder rt\<rparr>) rest\<rparr>"
  then show ?thesis
    by (auto dest: structure_of_Inr)
qed

theorem anatomical_structure_example:
  "(\<exists>g'. output_image (run_interface example_runtime (example_inputs ''L'' ''abs'')
        (example_fs (Int32 [-2, 0, 3]))) = Some g'
      \<and> FileMetaData g' ''AnatomicalStructurePrimary'' = Some ''CortexLeft'')
   \<and> (\<exists>g'. output_image (run_interface example_runtime (example_inputs ''R'' ''bin'')
        (example_fs (Int32 [-2, 0, 3]))) = Some g'
      \<and> FileMetaData g' ''AnatomicalStructurePrimary'' = Some ''CortexRight'')"
proof -
  let ?fs = "example_fs (Int32 [-2, 0, 3])"
  obtain l where l: "output_image (run_interface example_runtime (example_inputs ''L'' ''abs'') ?fs)
      = Some l"
    using example_output(1) [OF _ example_operations(2) example_casts(1) example_casts(4),
        of "''L''"] by simp
  obtain r where r: "output_image (run_interface example_runtime (example_inputs ''R'' ''bin'') ?fs)
      = Some r"
    using example_output(1) [OF _ example_operations(3) example_casts(3) example_casts(5),
        of "''R''"] by simp
  from anatomical_structure [OF l]
  have "FileMetaData l ''AnatomicalStructurePrimary'' = Some ''CortexLeft''"
    by (simp add: example_facts)
  moreover from anatomical_structure [OF r]
  have "FileMetaData r ''AnatomicalStructurePrimary'' = Some ''CortexRight''"
    by (simp add: example_facts)
  ultimately show ?thesis
    using l r by blast
qed

text \<open>
  C6. Whenever a run writes an image, with hemisphere \<open>h\<close> and metric \<open>m\<close>, the
  \<open>Name\<close> of the first data array's metadata is \<open>s_h_m\<close> for a subject \<open>s\<close> and
  \<open>sub-XYZ_h_m\<close> when the subject is left undefined.
\<close>

theorem map_name_label:
  assumes "output_darray (run_interface rt inputs fs) = Some d'"
    and "inputs ''hemisphere'' = Some h"
    and "inputs ''metric'' = Some m"
  shows "(\<forall>s. inputs ''subject_id'' = Some s \<longrightarrow>
            MetaData d' ''Name'' = Some (s @ ''_'' @ h @ ''_'' @ m))
       \<and> (inputs ''subject_id'' = None \<longrightarrow>
            MetaData d' ''Name'' = Some (''sub-XYZ'' @ ''_'' @ h @ ''_'' @ m))"
  using assms(1)
proof (rule output_darray_cases)
  fix d :: "'a DataArray" and a
  assume "d' = written_first (byteorder rt) inputs d a"
  with assms(2,3) show ?thesis
    by (simp add: written_first_def name_label_def fmt_def)
qed

theorem map_name_label_example:
  "\<exists>d'. output_darray (run_interface example_runtime (example_inputs ''L'' ''invert'')
       (example_fs (Int32 [-2, 0, 3]))) = Some d'
     \<and> MetaData d' ''Name'' = Some ''sub-XYZ_L_thickness''"
proof -
  obtain d' where
    d': "output_darray (run_interface example_runtime (example_inputs ''L'' ''invert'')
       (example_fs (Int32 [-2, 0, 3]))) = Some d'"
    using example_output(2) [OF _ example_operations(1) example_casts(1) example_casts(4),
        of "''L''"] by simp
  from map_name_label [OF d' example_facts(2) example_facts(4)]
  have "MetaData d' ''Name'' = Some ''sub-XYZ_L_thickness''"
    by (simp add: example_facts)
  with d' show ?thesis
    by blast
qed

text \<open>
  C7. Whenever a run returns a path, the path is \<^verbatim>\<open>os.path.join\<close> of the working
  directory and \<open>lh.\<close> (hemisphere \<open>L\<close>) or \<open>rh.\<close> (hemisphere \<open>R\<close>), the metric and
  \<open>.native.shape.gii\<close>, where an undefined metric reads \<^verbatim>\<open><undefined>\<close>; for a
  working directory that is not empty and has no trailing slash this is the directory,
  a slash and the name. A GIFTI file is at that path after the run, made from the
  input file and with as many data arrays, and no other path of the file system has
  changed. Any other run in the same directory that returns a path and has the same
  hemisphere and metric returns the same path, whatever its subject, operation, input
  file, file system and byte order.
\<close>

theorem output_path:
  fixes fs :: "'c filesystem"
  assumes "run_interface rt inputs fs = (Inr out, fs')"
  shows "(inputs ''hemisphere'' = Some ''L''
            \<and> out = os_path_join (cwd rt)
                 (''lh.'' @ fmt (inputs ''metric'') @ ''.native.shape.gii'')
          \<or> inputs ''hemisphere'' = Some ''R''
            \<and> out = os_path_join (cwd rt)
                 (''rh.'' @ fmt (inputs ''metric'') @ ''.native.shape.gii''))
       \<and> (\<forall>m. inputs ''metric'' = Some m \<longrightarrow> fmt (inputs ''metric'') = m)
       \<and> (inputs ''metric'' = None \<longrightarrow> fmt (inputs ''metric'') = ''<undefined>'')
       \<and> (cwd rt \<noteq> [] \<and> last (cwd rt) \<noteq> CHR ''/'' \<longrightarrow>
            out = cwd rt @ ''/'' @ lower (fmt (inputs ''hemisphere'')) @ ''h.''
                    @ fmt (inputs ''metric'') @ ''.native.shape.gii'')
       \<and> (\<exists>path g g'. inputs ''metric_file'' = Some path \<and> fs path = Some (GiftiFile g)
            \<and> fs' out = Some (GiftiFile g')
            \<and> length (DataArrays g') = length (DataArrays g))
       \<and> (\<forall>p. p \<noteq> out \<longrightarrow> fs' p = fs p)
       \<and> (\<forall>rt2 inputs2 (fs2 :: 'c filesystem) out2 fs2'.
            run_interface rt2 inputs2 fs2 = (Inr out2, fs2')
            \<and> cwd rt2 = cwd rt
            \<and> inputs2 ''hemisphere'' = inputs ''hemisphere''
            \<and> inputs2 ''metric'' = inputs ''metric''
            \<longrightarrow> out2 = out)"
proof -
  have path: "o' = out_path (cwd r') i'"
    if "run_interface r' i' f' = (Inr o', f'')"
    for r' i' and f' f'' :: "'c filesystem" and o'
    using that by (rule run_interface_success_cases)
  from assms have hemi: "inputs ''hemisphere'' = Some ''L'' \<or> inputs ''hemisphere'' = Some ''R''"
  proof (rule run_interface_success_cases)
    fix struct
    assume "structure_of (inputs ''hemisphere'') = Inr struct"
    then show ?thesis
      by (auto dest: structure_of_Inr)
  qed
  have low: "inputs ''hemisphere'' = Some ''L'' \<and> lower (fmt (inputs ''hemisphere'')) = ''l''
      \<or> inputs ''hemisphere'' = Some ''R'' \<and> lower (fmt (inputs ''hemisphere'')) = ''r''"
    using hemi by (auto simp: lower_def lower_char_def fmt_def)
  have out: "out = os_path_join (cwd rt)
      (lower (fmt (inputs ''hemisphere'')) @ ''h.'' @ fmt (inputs ''metric'') @ ''.native.shape.gii'')"
    using path [OF assms] by (simp add: out_path_def)
  have name: "inputs ''hemisphere'' = Some ''L''
            \<and> out = os_path_join (cwd rt)
                 (''lh.'' @ fmt (inputs ''metric'') @ ''.native.shape.gii'')
          \<or> inputs ''hemisphere'' = Some ''R''
            \<and> out = os_path_join (cwd rt)
                 (''rh.'' @ fmt (inputs ''metric'') @ ''.native.shape.gii'')"
    using out low by auto
  have metric: "(\<forall>m. inputs ''metric'' = Some m \<longrightarrow> fmt (inputs ''metric'') = m)
       \<and> (inputs ''metric'' = None \<longrightarrow> fmt (inputs ''metric'') = ''<undefined>'')"
    by (simp add: fmt_def)
  have joined: "out = cwd rt @ ''/'' @ lower (fmt (inputs ''hemisphere'')) @ ''h.''
                    @ fmt (inputs ''metric'') @ ''.native.shape.gii''"
    if "cwd rt \<noteq> [] \<and> last (cwd rt) \<noteq> CHR ''/''"
    using that out low by (auto simp: os_path_join_def)
  from assms
  have stored: "(\<exists>path g g'. inputs ''metric_file'' = Some path \<and> fs path = Some (GiftiFile g)
            \<and> fs' out = Some (GiftiFile g')
            \<and> length (DataArrays g') = length (DataArrays g))
       \<and> (\<forall>p. p \<noteq> out \<longrightarrow> fs' p = fs p)"
  proof (rule run_interface_success_cases)
    fix path g struct d rest a
    assume "inputs ''metric_file'' = Some path" "fs path = Some (GiftiFile g)"
      "DataArrays g = d # rest"
      "fs' = fs(out \<mapsto> GiftiFile
         \<lparr>FileMetaData = (FileMetaData g)(''AnatomicalStructurePrimary'' \<mapsto> struct),
          DataArrays = written_first (byteorder rt) inputs d a
            # map (\<lambda>r. r\<lparr>Endian := byteorder rt\<rparr>) rest\<rparr>)"
    then show ?thesis
      by auto
  qed
  have same: "out2 = out"
    if "run_interface rt2 inputs2 fs2 = (Inr out2, fs2')
        \<and> cwd rt2 = cwd rt
        \<and> inputs2 ''hemisphere'' = inputs ''hemisphere''
        \<and> inputs2 ''metric'' = inputs ''metric''"
    for rt2 inputs2 and fs2 fs2' :: "'c filesystem" and out2
    using that path [of rt2 inputs2 fs2 out2 fs2'] path [OF assms] by (simp add: out_path_def)
  from name metric joined stored same show ?thesis
    by blast
qed

theorem output_path_example:
  "\<exists>fs'. run_interface example_runtime (example_inputs ''L'' ''abs'') (example_fs (Int32 [-2, 0, 3]))
       = (Inr ''/work/lh.thickness.native.shape.gii'', fs')
     \<and> (\<exists>g'. fs' ''/work/lh.thickness.native.shape.gii'' = Some (GiftiFile g')
          \<and> length (DataArrays g') = 2)
     \<and> fs' ''/data/in.shape.gii'' = Some (GiftiFile (example_image (Int32 [-2, 0, 3])))"
proof -
  let ?fs = "example_fs (Int32 [-2, 0, 3])"
  obtain fs' where run: "run_interface example_runtime (example_inputs ''L'' ''abs'') ?fs
      = (Inr ''/work/lh.thickness.native.shape.gii'', fs')"
    using example_run [OF _ example_operations(2) example_casts(1) example_casts(4), of "''L''"]
    by (simp add: example_out_path)
  from output_path [OF run]
  have stored: "\<exists>path g g'. example_inputs ''L'' ''abs'' ''metric_file'' = Some path
        \<and> ?fs path = Some (GiftiFile g)
        \<and> fs' ''/work/lh.thickness.native.shape.gii'' = Some (GiftiFile g')
        \<and> length (DataArrays g') = length (DataArrays g)"
    and others: "\<forall>p. p \<noteq> ''/work/lh.thickness.native.shape.gii'' \<longrightarrow> fs' p = ?fs p"
    by blast+
  from stored have "\<exists>g'. fs' ''/work/lh.thickness.native.shape.gii'' = Some (GiftiFile g')
      \<and> length (DataArrays g') = 2"
    by (auto simp: example_facts)
  moreover from others
  have "fs' ''/data/in.shape.gii'' = Some (GiftiFile (example_image (Int32 [-2, 0, 3])))"
    by (simp add: example_facts)
  ultimately show ?thesis
    using run by blast
qed

text \<open>
  C9, as the spec has it: every attribute of the first data array other than its values
  is carried over, endianness among them. A big-endian array is written on a
  little-endian machine as little-endian; its \<open>Name\<close> is set and its external file
  name and offset are reset.
\<close>

theorem darray_attributes_counterexample:
  "\<exists>d'. output_darray (run_interface example_runtime (example_inputs ''L'' ''abs'')
       (example_fs (Int32 [-2, 0, 3]))) = Some d'
     \<and> Endian (example_darray (Int32 [-2, 0, 3])) = 1 \<and> Endian d' = 2
     \<and> MetaData (example_darray (Int32 [-2, 0, 3])) ''Name'' = Some ''old name''
     \<and> MetaData d' ''Name'' = Some ''sub-XYZ_L_thickness''
     \<and> ExternalFileName (example_darray (Int32 [-2, 0, 3])) = ''data.bin''
     \<and> ExternalFileName d' = []"
  by (simp add: example_output(2) [OF _ example_operations(2) example_casts(1) example_casts(4)]
      written_first_def example_darray_def name_label_def example_facts fmt_def)

text \<open>
  C9, amended. Let \<open>d\<close> be the first data array of the input file and \<open>d'\<close> the first
  data array of the file a run writes. Intent, encoding, coordinate system and index
  order of \<open>d'\<close> are those of \<open>d\<close>, whatever the operation; with \<open>invert\<close> and
  \<open>abs\<close> the datatype is that of \<open>d\<close> too, with \<open>bin\<close> it is \<open>uint8\<close>, and a
  datatype that differs from the input's comes from \<open>bin\<close> only. The endianness of
  \<open>d'\<close> is the byte order of the machine, whatever that of \<open>d\<close>; the external file
  name and offset are the defaults; of the metadata every entry but \<open>Name\<close> is kept.
\<close>

theorem darray_attributes_kept:
  assumes "inputs ''metric_file'' = Some path"
    and "fs path = Some (GiftiFile g)"
    and "DataArrays g = d # rest"
    and "output_darray (run_interface rt inputs fs) = Some d'"
  shows "Intent d' = Intent d \<and> Encoding d' = Encoding d
       \<and> CoordinateSystem d' = CoordinateSystem d
       \<and> ArrayIndexingOrder d' = ArrayIndexingOrder d
       \<and> (inputs ''operation'' = Some ''invert'' \<or> inputs ''operation'' = Some ''abs''
            \<longrightarrow> DataType d' = DataType d)
       \<and> (inputs ''operation'' = Some ''bin'' \<longrightarrow> DataType d' = ''uint8'')
       \<and> (DataType d' \<noteq> DataType d \<longrightarrow> inputs ''operation'' = Some ''bin'')
       \<and> Endian d' = byteorder rt
       \<and> ExternalFileName d' = [] \<and> ExternalFileOffset d' = 0
       \<and> (\<forall>k. k \<noteq> ''Name'' \<longrightarrow> MetaData d' k = MetaData d k)"
  using assms(4)
proof (rule output_darray_cases)
  fix path' g' d0 rest' data' datatype' a
  assume "inputs ''metric_file'' = Some path'" "fs path' = Some (GiftiFile g')"
    "DataArrays g' = d0 # rest'"
  with assms(1-3) have same: "d0 = d"
    by simp
  assume "apply_operation (inputs ''operation'') (parse_darray d0) = Inr (data', datatype')"
    and cast: "astype datatype' data' = Some a"
    and "d' = written_first (byteorder rt) inputs d0 a"
  with same have op: "apply_operation (inputs ''operation'') (parse_darray d) = Inr (data', datatype')"
    and d': "d' = written_first (byteorder rt) inputs d a"
    by simp_all
  have frame: "Intent d' = Intent d \<and> Encoding d' = Encoding d
       \<and> CoordinateSystem d' = CoordinateSystem d
       \<and> ArrayIndexingOrder d' = ArrayIndexingOrder d
       \<and> Endian d' = byteorder rt
       \<and> ExternalFileName d' = [] \<and> ExternalFileOffset d' = 0
       \<and> (\<forall>k. k \<noteq> ''Name'' \<longrightarrow> MetaData d' k = MetaData d k)"
    using d' by (simp add: written_first_def)
  have written: "dtype a = datatype'"
    using cast by (rule astype_result)
  have dt: "(inputs ''operation'' = Some ''abs'' \<or> inputs ''operation'' = Some ''invert'')
        \<and> datatype' = dtype (Data d)
      \<or> inputs ''operation'' = Some ''bin'' \<and> datatype' = ''uint8''"
    using apply_operation_cases [OF op] by (auto simp: parse_darray_def)
  have "DataType d' = datatype'"
    using d' written by (simp add: DataType_def written_first_def)
  with dt have "(inputs ''operation'' = Some ''invert'' \<or> inputs ''operation'' = Some ''abs''
            \<longrightarrow> DataType d' = DataType d)
       \<and> (inputs ''operation'' = Some ''bin'' \<longrightarrow> DataType d' = ''uint8'')
       \<and> (DataType d' \<noteq> DataType d \<longrightarrow> inputs ''operation'' = Some ''bin'')"
    by (auto simp: DataType_def)
  with frame show ?thesis
    by blast
qed

theorem darray_attributes_kept_example:
  "(\<exists>d'. output_darray (run_interface example_runtime (example_inputs ''L'' ''invert'')
        (example_fs (Int32 [-2, 0, 3]))) = Some d'
      \<and> Intent d' = 2005 \<and> Encoding d' = 3 \<and> CoordinateSystem d' = ()
      \<and> ArrayIndexingOrder d' = 1 \<and> DataType d' = ''int32'' \<and> Endian d' = 2)
   \<and> (\<exists>d'. output_darray (run_interface example_runtime (example_inputs ''L'' ''bin'')
        (example_fs (Int32 [-2, 0, 3]))) = Some d'
      \<and> Intent d' = 2005 \<and> Encoding d' = 3 \<and> CoordinateSystem d' = ()
      \<and> ArrayIndexingOrder d' = 1 \<and> DataType d' = ''uint8'' \<and> Endian d' = 2)"
proof -
  let ?fs = "example_fs (Int32 [-2, 0, 3])"
  obtain a where
    a: "output_darray (run_interface example_runtime (example_inputs ''L'' ''invert'') ?fs) = Some a"
    using example_output(2) [OF _ example_operations(1) example_casts(1) example_casts(4),
        of "''L''"] by simp
  obtain b where
    b: "output_darray (run_interface example_runtime (example_inputs ''L'' ''bin'') ?fs) = Some b"
    using example_output(2) [OF _ example_operations(3) example_casts(3) example_casts(5),
        of "''L''"] by simp
  from darray_attributes_kept [OF example_facts(1) example_facts(6) example_facts(7) a]
  have "Intent a = 2005 \<and> Encoding a = 3 \<and> CoordinateSystem a = ()
      \<and> ArrayIndexingOrder a = 1 \<and> DataType a = ''int32'' \<and> Endian a = 2"
    by (simp add: example_facts example_darray_def DataType_def)
  moreover
  from darray_attributes_kept [OF example_facts(1) example_facts(6) example_facts(7) b]
  have "Intent b = 2005 \<and> Encoding b = 3 \<and> CoordinateSystem b = ()
      \<and> ArrayIndexingOrder b = 1 \<and> DataType b = ''uint8'' \<and> Endian b = 2"
    by (simp add: example_facts example_darray_def DataType_def)
  ultimately show ?thesis
    using a b by blast
qed




text \<open>
  C3. If \<open>surface_file\<close> or \<open>metric_file\<close> is left undefined or names a file that is
  not on disk, a run of \<open>MetricFillHoles\<close> and a run of \<open>MetricRemoveIslands\<close> end in
  an error, before any subprocess. If the \<open>metric_file\<close> of \<open>MetricMath\<close> is
  undefined or not a file on disk, the whole run fails and so does \<^verbatim>\<open>_run_interface\<close> by
  itself, and the file system is left as it was.
\<close>

theorem missing_input_fails:
  "(missing on_disk inputs ''surface_file'' \<or> missing on_disk inputs ''metric_file'' \<longrightarrow>
      (\<exists>e. spawn MetricFillHoles inputs on_disk = Inl e)
      \<and> (\<exists>e. spawn MetricRemoveIslands inputs on_disk = Inl e))
   \<and> (missing (is_file fs) inputs ''metric_file'' \<longrightarrow>
      (\<exists>e. MetricMath_run rt inputs fs = (Inl e, fs))
      \<and> (\<exists>e. run_interface rt inputs fs = (Inl e, fs)))"
proof -
  have wrappers: "(\<exists>e. spawn MetricFillHoles inputs on_disk = Inl e)
      \<and> (\<exists>e. spawn MetricRemoveIslands inputs on_disk = Inl e)"
    if "missing on_disk inputs ''surface_file'' \<or> missing on_disk inputs ''metric_file''"
    using that
    by (auto simp: missing_def spawn_def cmdline_def validate_wrappers mandatory_wrappers
        MetricFillHoles_def MetricRemoveIslands_def split: option.splits)
  have run: "\<exists>e. run_interface rt inputs fs = (Inl e, fs)"
    if "missing (is_file fs) inputs ''metric_file''"
    using that
    by (auto simp: missing_def is_file_def run_interface_def from_filename_def Let_def
        split: option.splits disk_file.splits)
  then have "\<exists>e. MetricMath_run rt inputs fs = (Inl e, fs)"
    if "missing (is_file fs) inputs ''metric_file''"
    using that by (simp add: MetricMath_run_def split: option.splits)
  with wrappers run show ?thesis
    by blast
qed

theorem missing_input_fails_example:
  "spawn MetricFillHoles roi_inputs (\<lambda>p. p = ''lh.roi.shape.gii'') = Inl (TraitError ''surface_file'')
   \<and> spawn MetricRemoveIslands (roi_inputs(''metric_file'' := None)) roi_disk
       = Inl (ValueError ''metric_file'')
   \<and> MetricMath_run example_runtime (example_inputs ''L'' ''abs'') (Map.empty :: unit filesystem)
       = (Inl (TraitError ''metric_file''), Map.empty)
   \<and> run_interface example_runtime (example_inputs ''L'' ''abs'') (Map.empty :: unit filesystem)
       = (Inl (FileNotFoundError ''/data/in.shape.gii''), Map.empty)"
  using missing_input_fails [where inputs = roi_inputs and on_disk = "\<lambda>p. p = ''lh.roi.shape.gii''"
      and fs = "Map.empty :: unit filesystem" and rt = example_runtime]
    missing_input_fails [where inputs = "roi_inputs(''metric_file'' := None)" and on_disk = roi_disk
      and fs = "Map.empty :: unit filesystem" and rt = example_runtime]
    missing_input_fails [where inputs = "example_inputs ''L'' ''abs''" and on_disk = roi_disk
      and fs = "Map.empty :: unit filesystem" and rt = example_runtime]
  by (simp add: missing_def roi_facts example_facts spawn_def cmdline_def validate_wrappers
      mandatory_wrappers MetricFillHoles_def MetricRemoveIslands_def MetricMath_run_def
      check_inputs_def MetricMathInputSpec_def Trait_def validate_trait_def run_interface_def
      from_filename_def is_file_def)

text \<open>
  C4. With a surface file \<open>s\<close>, an input metric \<open>m\<close> and no output name given, the
  output name of \<open>MetricFillHoles\<close> is the base name of \<open>m\<close> (its file name less the
  extension) followed by \<open>_filled.shape.gii\<close>, that of \<open>MetricRemoveIslands\<close> the
  same base name followed by \<open>_noislands.shape.gii\<close>, and each command line is the
  command, then \<open>s\<close>, then \<open>m\<close>, then the output name, then what else there is.
\<close>

theorem derived_output_name:
  assumes "inputs ''surface_file'' = Some s"
    and "inputs ''metric_file'' = Some m"
    and "inputs ''out_file'' = None"
  shows "\<exists>base ext args.
           os_path_basename m = base @ ext
         \<and> split_filename m = (os_path_dirname m, base, ext)
         \<and> cmdline MetricFillHoles inputs =
             Inr (join_spaces (''wb_command -metric-fill-holes'' # s # m #
                    (base @ ''_filled.shape.gii'') # args))
         \<and> cmdline MetricRemoveIslands inputs =
             Inr (join_spaces (''wb_command -metric-remove-islands'' # s # m #
                    (base @ ''_noislands.shape.gii'') # args))"
proof -
  obtain pth base ext where split: "split_filename m = (pth, base, ext)"
    by (cases "split_filename m")
  then have pth: "pth = os_path_dirname m"
    by (auto simp: split_filename_def Let_def split: option.splits prod.splits)
  from split have name: "os_path_basename m = base @ ext"
    by (simp add: split_filename_name)
  from split have derived: "derived_name m sfx = base @ sfx" for sfx
    by (simp add: derived_name_def)
  from cmdline_wrappers [OF assms] split pth name show ?thesis
    by (auto simp: derived)
qed

theorem derived_output_name_example:
  "cmdline MetricFillHoles roi_inputs =
     Inr ''wb_command -metric-fill-holes lh.midthickness.surf.gii lh.roi.shape.gii lh.roi.shape_filled.shape.gii''
   \<and> cmdline MetricRemoveIslands roi_inputs =
     Inr ''wb_command -metric-remove-islands lh.midthickness.surf.gii lh.roi.shape.gii lh.roi.shape_noislands.shape.gii''"
proof -
  have split: "split_filename ''lh.roi.shape.gii'' = ([], ''lh.roi.shape'', ''.gii'')"
    by (simp add: split_filename_def os_path_splitext_def os_path_basename_def
        os_path_dirname_def lower_def lower_char_def)
  from derived_output_name [OF roi_facts(1) roi_facts(2) roi_facts(3)]
  obtain args where c:
    "cmdline MetricFillHoles roi_inputs =
       Inr (join_spaces (''wb_command -metric-fill-holes'' # ''lh.midthickness.surf.gii'' #
         ''lh.roi.shape.gii'' # ''lh.roi.shape_filled.shape.gii'' # args))"
    "cmdline MetricRemoveIslands roi_inputs =
       Inr (join_spaces (''wb_command -metric-remove-islands'' # ''lh.midthickness.surf.gii'' #
         ''lh.roi.shape.gii'' # ''lh.roi.shape_noislands.shape.gii'' # args))"
    by (auto simp: split)
  have "cmdline MetricFillHoles roi_inputs =
       Inr (join_spaces [''wb_command -metric-fill-holes'', ''lh.midthickness.surf.gii'',
         ''lh.roi.shape.gii'', ''lh.roi.shape_filled.shape.gii''])"
    using cmdline_wrappers(1) [OF roi_facts(1) roi_facts(2) roi_facts(3)]
    by (simp add: roi_facts derived_name_roi)
  with c(1) have "args = []"
    by (cases args) simp_all
  with c show ?thesis
    by simp
qed

text \<open>
  C8, as the spec has it: the command line is
  \<^verbatim>\<open>command <surface> <metric-in> [-corrected-areas <area-metric>] <metric-out>\<close>. With
  corrected areas given this is not the command line built: the three file arguments
  have the positions 1, 2 and 3 and \<^verbatim>\<open>corrected_areas\<close> has none, so the flag follows
  the output name.
\<close>

theorem spec_template_counterexample:
  "spawn MetricFillHoles roi_inputs_areas roi_disk =
     Inr ''wb_command -metric-fill-holes lh.midthickness.surf.gii lh.roi.shape.gii lh.roi.shape_filled.shape.gii -corrected-areas lh.va.shape.gii''
   \<and> spec_template ''wb_command -metric-fill-holes'' ''lh.midthickness.surf.gii''
       ''lh.roi.shape.gii'' (Some ''lh.va.shape.gii'') ''lh.roi.shape_filled.shape.gii'' =
     ''wb_command -metric-fill-holes lh.midthickness.surf.gii lh.roi.shape.gii -corrected-areas lh.va.shape.gii lh.roi.shape_filled.shape.gii''
   \<and> spawn MetricFillHoles roi_inputs_areas roi_disk \<noteq>
       Inr (spec_template ''wb_command -metric-fill-holes'' ''lh.midthickness.surf.gii''
         ''lh.roi.shape.gii'' (Some ''lh.va.shape.gii'') ''lh.roi.shape_filled.shape.gii'')"
  using cmdline_wrappers(1) [OF roi_facts(5) roi_facts(6) roi_facts(7)]
  by (simp add: spawn_def validate_wrappers roi_facts derived_name_roi spec_template_def
      MetricFillHoles_def)

text \<open>
  C8, amended. With a surface file \<open>s\<close> and an input metric \<open>m\<close> that are on disk,
  and no output name given, the command line of each wrapper is
  \<^verbatim>\<open>command s m <metric-out> [-corrected-areas <area-metric>]\<close>: without corrected areas
  it is the command, \<open>s\<close>, \<open>m\<close> and the output name and nothing else; with corrected
  areas that are on disk the flag and the area metric follow the output name; corrected
  areas that are not on disk end the run before any subprocess.
\<close>

theorem command_line_template:
  assumes "inputs ''surface_file'' = Some s"
    and "inputs ''metric_file'' = Some m"
    and "inputs ''out_file'' = None"
    and "on_disk s"
    and "on_disk m"
  shows "(inputs ''corrected_areas'' = None \<longrightarrow>
            spawn MetricFillHoles inputs on_disk =
              Inr (join_spaces [''wb_command -metric-fill-holes'', s, m,
                     derived_name m ''_filled.shape.gii''])
          \<and> spawn MetricRemoveIslands inputs on_disk =
              Inr (join_spaces [''wb_command -metric-remove-islands'', s, m,
                     derived_name m ''_noislands.shape.gii'']))
       \<and> (\<forall>a. inputs ''corrected_areas'' = Some a \<and> on_disk a \<longrightarrow>
            spawn MetricFillHoles inputs on_disk =
              Inr (join_spaces [''wb_command -metric-fill-holes'', s, m,
                     derived_name m ''_filled.shape.gii'', ''-corrected-areas'', a])
          \<and> spawn MetricRemoveIslands inputs on_disk =
              Inr (join_spaces [''wb_command -metric-remove-islands'', s, m,
                     derived_name m ''_noislands.shape.gii'', ''-corrected-areas'', a]))
       \<and> (\<forall>a. inputs ''corrected_areas'' = Some a \<and> \<not> on_disk a \<longrightarrow>
            spawn MetricFillHoles inputs on_disk = Inl (TraitError ''corrected_areas'')
          \<and> spawn MetricRemoveIslands inputs on_disk = Inl (TraitError ''corrected_areas''))"
  using assms cmdline_wrappers [OF assms(1-3)]
  by (simp add: spawn_def validate_wrappers MetricFillHoles_def MetricRemoveIslands_def)


theorem command_line_template_example:
  "spawn MetricFillHoles roi_inputs roi_disk =
     Inr ''wb_command -metric-fill-holes lh.midthickness.surf.gii lh.roi.shape.gii lh.roi.shape_filled.shape.gii''
   \<and> spawn MetricRemoveIslands roi_inputs_areas roi_disk =
     Inr ''wb_command -metric-remove-islands lh.midthickness.surf.gii lh.roi.shape.gii lh.roi.shape_noislands.shape.gii -corrected-areas lh.va.shape.gii''
   \<and> spawn MetricFillHoles roi_inputs_areas (\<lambda>p. p \<noteq> ''lh.va.shape.gii'') =
     Inl (TraitError ''corrected_areas'')"
proof -
  have "spawn MetricFillHoles roi_inputs roi_disk =
      Inr (join_spaces [''wb_command -metric-fill-holes'', ''lh.midthickness.surf.gii'',
        ''lh.roi.shape.gii'', derived_name ''lh.roi.shape.gii'' ''_filled.shape.gii''])"
    using command_line_template [where inputs = roi_inputs and on_disk = roi_disk,
        OF roi_facts(1) roi_facts(2) roi_facts(3) roi_facts(9) roi_facts(10)] roi_facts(4)
    by blast
  then have a: "spawn MetricFillHoles roi_inputs roi_disk =
     Inr ''wb_command -metric-fill-holes lh.midthickness.surf.gii lh.roi.shape.gii lh.roi.shape_filled.shape.gii''"
    by (simp add: derived_name_roi)
  have "spawn MetricRemoveIslands roi_inputs_areas roi_disk =
      Inr (join_spaces [''wb_command -metric-remove-islands'', ''lh.midthickness.surf.gii'',
        ''lh.roi.shape.gii'', derived_name ''lh.roi.shape.gii'' ''_noislands.shape.gii'',
        ''-corrected-areas'', ''lh.va.shape.gii''])"
    using command_line_template [where inputs = roi_inputs_areas and on_disk = roi_disk,
        OF roi_facts(5) roi_facts(6) roi_facts(7) roi_facts(9) roi_facts(10)]
      roi_facts(8) roi_facts(11)
    by blast
  then have b: "spawn MetricRemoveIslands roi_inputs_areas roi_disk =
     Inr ''wb_command -metric-remove-islands lh.midthickness.surf.gii lh.roi.shape.gii lh.roi.shape_noislands.shape.gii -corrected-areas lh.va.shape.gii''"
    by (simp add: derived_name_roi)
  have s: "''lh.midthickness.surf.gii'' \<noteq> ''lh.va.shape.gii''"
    and m: "''lh.roi.shape.gii'' \<noteq> ''lh.va.shape.gii''"
    by simp_all
  have c: "spawn MetricFillHoles roi_inputs_areas (\<lambda>p. p \<noteq> ''lh.va.shape.gii'') =
     Inl (TraitError ''corrected_areas'')"
    using command_line_template [where inputs = roi_inputs_areas
        and on_disk = "\<lambda>p. p \<noteq> ''lh.va.shape.gii''",
        OF roi_facts(5) roi_facts(6) roi_facts(7) s m] roi_facts(8)
    by blast
  from a b c show ?thesis
    by blast
qed

end
